theory Spec2Isabelle
  imports Complex_Main
begin

text \<open>
  The WebXR session manager (\<^verbatim>\<open>WebXRSessionManager\<close>) and the default experience
  (\<^verbatim>\<open>WebXRDefaultExperience\<close>) as functions on an explicit state. A method that returns
  a promise is a function from the platform's answers to the outcome and the new state;
  the callbacks of one promise chain run as one step. What the code does to objects
  outside itself (the session, the engine, its subscribers) is recorded as a trace of
  events.
\<close>

section \<open>Values of the host language\<close>

text \<open>
  A JavaScript number is a double. No operation of the session manager rounds: it only
  compares, negates and stores numbers. A finite double is therefore taken as the real
  number it denotes (the two zeros are one value), next to the three special values.
\<close>

datatype number = NaN | NegInfinity | Num real | Infinity

text \<open>The falsy numbers of JavaScript are the zeros and NaN.\<close>

fun falsy :: "number \<Rightarrow> bool" where
  "falsy NaN = True"
| "falsy (Num r) = (r = 0)"
| "falsy NegInfinity = False"
| "falsy Infinity = False"

text \<open>\<^verbatim>\<open>value || 0\<close> on a \<^verbatim>\<open>Nullable<number>\<close>: null and the falsy numbers give 0.\<close>

fun or_zero :: "number option \<Rightarrow> number" where
  "or_zero None = Num 0"
| "or_zero (Some v) = (if falsy v then Num 0 else v)"

text \<open>\<^verbatim>\<open>value || null\<close> on a \<^verbatim>\<open>Nullable<number>\<close>.\<close>

fun or_null :: "number option \<Rightarrow> number option" where
  "or_null None = None"
| "or_null (Some v) = (if falsy v then None else Some v)"

text \<open>\<^verbatim>\<open>Math.min\<close> and \<^verbatim>\<open>Math.max\<close> of two numbers: NaN is contagious.\<close>

fun Math_min :: "number \<Rightarrow> number \<Rightarrow> number" where
  "Math_min NaN b = NaN"
| "Math_min a NaN = NaN"
| "Math_min NegInfinity b = NegInfinity"
| "Math_min a NegInfinity = NegInfinity"
| "Math_min Infinity b = b"
| "Math_min a Infinity = a"
| "Math_min (Num a) (Num b) = Num (min a b)"

fun Math_max :: "number \<Rightarrow> number \<Rightarrow> number" where
  "Math_max NaN b = NaN"
| "Math_max a NaN = NaN"
| "Math_max Infinity b = Infinity"
| "Math_max a Infinity = Infinity"
| "Math_max NegInfinity b = b"
| "Math_max a NegInfinity = a"
| "Math_max (Num a) (Num b) = Num (max a b)"

text \<open>Unary minus.\<close>

fun negate :: "number \<Rightarrow> number" where
  "negate NaN = NaN"
| "negate NegInfinity = Infinity"
| "negate Infinity = NegInfinity"
| "negate (Num r) = Num (- r)"

text \<open>
  What a rejected promise or a \<^verbatim>\<open>throw\<close> carries: the string the code throws, the
  TypeError of a property read on \<^verbatim>\<open>undefined\<close>, or the reason the platform gave.
  An operation returns \<open>error + 'a\<close>, \<open>Inl\<close> being the rejection.
\<close>

type_synonym reason = string

datatype error = Thrown string | TypeError | Rejected reason

section \<open>The platform: WebXR objects the manager talks to\<close>

datatype XRSessionMode = Inline | ImmersiveVR | ImmersiveAR

datatype XRReferenceSpaceType = Viewer | Local | LocalFloor | BoundedFloor | Unbounded

record XRSessionInit =
  requiredFeatures :: "string list"
  optionalFeatures :: "string list"

text \<open>A session is a handle; \<^verbatim>\<open>enabledFeatures\<close> may be undefined on it.\<close>

record XRSession =
  sessionId :: nat
  sessionEnabledFeatures :: "string list option"

text \<open>
  \<^verbatim>\<open>new XRRigidTransform({x, y, z})\<close>: a translation, the orientation left at its default.
\<close>

datatype XRRigidTransform = XRRigidTransform (position: "number \<times> number \<times> number")

text \<open>
  A reference space is either one the device handed out, or the result of
  \<^verbatim>\<open>getOffsetReferenceSpace\<close> on another one.
\<close>

datatype XRReferenceSpace =
    DeviceSpace XRReferenceSpaceType nat
  | OffsetSpace XRReferenceSpace XRRigidTransform

definition getOffsetReferenceSpace :: "XRReferenceSpace \<Rightarrow> XRRigidTransform \<Rightarrow> XRReferenceSpace" where
  "getOffsetReferenceSpace s t = OffsetSpace s t"

type_synonym XRFrame = nat

record XRLayer =
  layerId :: nat
  layerDimensions :: "(nat \<times> nat) option"
  layerFixedFoveation :: "number option"

record XRRenderStateInit =
  baseLayer :: "XRLayer option"
  depthNear :: "number option"
  depthFar :: "number option"

text \<open>
  \<^verbatim>\<open>navigator.xr\<close>: the \<^verbatim>\<open>native\<close> marker of the native backend (absent in a browser)
  and the two capability probes, each of which may be missing. A probe answers with a
  promise: rejected, or resolved with a boolean or with \<^verbatim>\<open>undefined\<close>.
\<close>

record XRSystem =
  native :: "bool option"
  isSessionSupported :: "(XRSessionMode \<Rightarrow> reason + bool option) option"
  supportsSession :: "(XRSessionMode \<Rightarrow> reason + bool option) option"

record Navigator =
  xr :: "XRSystem option"

section \<open>Collaborators of the manager inside the engine\<close>

text \<open>
  Modelled from the spec: the \<^verbatim>\<open>Observable\<close> class is not among the sources. An
  observable is the ordered list of its current subscribers; \<^verbatim>\<open>clear\<close> empties it,
  \<^verbatim>\<open>addOnce\<close> appends a subscriber that leaves after its first notification, and
  \<^verbatim>\<open>notifyObservers\<close> delivers one argument to all current subscribers, in order and
  synchronously. A subscriber is known by an identifier.
\<close>

record Observer =
  observerId :: nat
  once :: bool

type_synonym Observable = "Observer list"

definition clear :: "Observable \<Rightarrow> Observable" where
  "clear obs = []"

definition addOnce :: "nat \<Rightarrow> Observable \<Rightarrow> Observable" where
  "addOnce cb obs = obs @ [\<lparr>observerId = cb, once = True\<rparr>]"

definition add :: "nat \<Rightarrow> Observable \<Rightarrow> Observable" where
  "add cb obs = obs @ [\<lparr>observerId = cb, once = False\<rparr>]"

definition after_notify :: "Observable \<Rightarrow> Observable" where
  "after_notify obs = filter (\<lambda>ob. \<not> once ob) obs"

text \<open>
  Modelled from the spec: the layer wrapper classes are not among the sources. A wrapper
  owns one compositor layer, comes in exactly two variants, and shows the manager two
  properties: whether fixed foveation is supported, and the foveation level, which the
  manager reads and writes. The level is a capability of a wrapper that supports fixed
  foveation: on a wrapper without support a read gives the null sentinel and a write is
  ignored.
\<close>

datatype WrapperVariant = NativeXRLayerWrapper | WebXRWebGLLayerWrapper

record WebXRLayerWrapper =
  variant :: WrapperVariant
  layer :: XRLayer
  wrapperIsFixedFoveationSupported :: bool
  wrapperFixedFoveation :: "number option"

text \<open>
  Modelled from the spec: the render-target-texture provider is not among the sources. It
  is made by the wrapper for its layer and reports the framebuffer dimensions.
\<close>

definition wrapper_get_fixedFoveation :: "WebXRLayerWrapper \<Rightarrow> number option" where
  "wrapper_get_fixedFoveation lw =
     (if wrapperIsFixedFoveationSupported lw then wrapperFixedFoveation lw else None)"

definition wrapper_set_fixedFoveation :: "number \<Rightarrow> WebXRLayerWrapper \<Rightarrow> WebXRLayerWrapper" where
  "wrapper_set_fixedFoveation val lw =
     (if wrapperIsFixedFoveationSupported lw then lw\<lparr>wrapperFixedFoveation := Some val\<rparr> else lw)"

definition new_wrapper :: "WrapperVariant \<Rightarrow> XRLayer \<Rightarrow> WebXRLayerWrapper" where
  "new_wrapper v l =
     \<lparr>variant = v, layer = l, wrapperIsFixedFoveationSupported = (layerFixedFoveation l \<noteq> None),
      wrapperFixedFoveation = layerFixedFoveation l\<rparr>"

datatype RTTProvider = RTTProvider WrapperVariant XRLayer

fun createRenderTargetTextureProvider :: "WebXRLayerWrapper \<Rightarrow> RTTProvider option" where
  "createRenderTargetTextureProvider w = Some (RTTProvider (variant w) (layer w))"

fun getFramebufferDimensions :: "RTTProvider \<Rightarrow> (nat \<times> nat) option" where
  "getFramebufferDimensions (RTTProvider v l) = layerDimensions l"

text \<open>The two render targets \<^verbatim>\<open>getWebXRRenderTarget\<close> can build.\<close>

datatype WebXRRenderTarget = NativeXRRenderTarget | WebXRManagedOutputCanvas

text \<open>
  The two fields of the host engine that the manager writes. The engine's methods are
  calls out of the manager and appear as events.
\<close>

record Engine =
  framebufferDimensionsObject :: "(nat \<times> nat) option"
  customAnimationFrameRequester :: bool

type_synonym Scene = nat

section \<open>The session manager\<close>

text \<open>The fields of \<^verbatim>\<open>WebXRSessionManager\<close>; a private field \<^verbatim>\<open>_f\<close> is \<open>priv_f\<close>.\<close>

record WebXRSessionManager =
  priv_referenceSpace :: "XRReferenceSpace option"
  priv_baseLayerWrapper :: "WebXRLayerWrapper option"
  priv_baseLayerRTTProvider :: "RTTProvider option"
  priv_xrNavigator :: "Navigator option"
  priv_sessionMode :: "XRSessionMode option"
  priv_renderState :: "XRRenderStateInit option"
  priv_renderTarget :: "WebXRRenderTarget option"
  engine :: "Engine option"
  scene :: "Scene option"
  persistent :: bool
  baseReferenceSpace :: "XRReferenceSpace option"
  currentFrame :: "XRFrame option"
  currentTimestamp :: number
  defaultHeightCompensation :: number
  onXRFrameObservable :: Observable
  onXRReferenceSpaceChanged :: Observable
  onXRSessionEnded :: Observable
  onXRSessionInit :: Observable
  onXRSessionMoved :: Observable
  session :: "XRSession option"
  viewerReferenceSpace :: "XRReferenceSpace option"
  inXRFrameLoop :: bool
  inXRSession :: bool

subsection \<open>Events and the world\<close>

text \<open>The five observables of the manager.\<close>

datatype signal = OnXRFrame | OnXRReferenceSpaceChanged | OnXRSessionEnded | OnXRSessionInit | OnXRSessionMoved

datatype payload =
    FrameArg XRFrame
  | SpaceArg "XRReferenceSpace option"
  | SessionArg "XRSession option"
  | NullArg

text \<open>The three feature modules the default experience enables.\<close>

datatype Feature = PointerSelection | Teleportation | NearInteraction

text \<open>
  Everything the manager does to the outside is an event of the trace, in program order.
  \<open>Notify\<close> is a call of \<^verbatim>\<open>notifyObservers\<close>: the observable, the argument, the
  subscribers it is delivered to, and the fields of the manager as a subscriber finds
  them when it is called.
\<close>

datatype event =
    Notify signal payload Observable WebXRSessionManager
  | RequestSession XRSessionMode XRSessionInit
  | RequestReferenceSpace XRReferenceSpaceType
  | AddEndListener XRSession
  | SessionEnd XRSession
  | SessionUpdateRenderState XRRenderStateInit
  | SessionUpdateTargetFrameRate number
  | ProviderDispose RTTProvider
  | RestoreDefaultFramebuffer
  | RenderLoop
  | CancelAnimationFrame
  | EngineRemoveDisposeObserver
  | SceneDisposeAddOnce Scene
  | InitializeXRLayer WebXRRenderTarget
  | HookUp
  | BaseExperienceDispose bool
  | BaseExperienceMove Scene
  | NewInput
  | InputDispose
  | EnableFeature Feature bool
  | SetSelectionFeature
  | NewEnterExitUI
  | EnterExitUIDispose
  | RenderTargetDispose WebXRRenderTarget
  | RunCallback nat
  | LoggerError string
  | LoggerWarn string
  | LoggerLog string

text \<open>
  The world: the manager, the sessions that carry its pending one-shot "end" listener,
  and the trace.
\<close>

record world =
  mgr :: WebXRSessionManager
  endListeners :: "nat list"
  trace :: "event list"

definition on_mgr :: "(WebXRSessionManager \<Rightarrow> WebXRSessionManager) \<Rightarrow> world \<Rightarrow> world" where
  "on_mgr f w = w\<lparr>mgr := f (mgr w)\<rparr>"

definition emit :: "event list \<Rightarrow> world \<Rightarrow> world" where
  "emit es w = w\<lparr>trace := trace w @ es\<rparr>"

fun observable_of :: "signal \<Rightarrow> WebXRSessionManager \<Rightarrow> Observable" where
  "observable_of OnXRFrame m = onXRFrameObservable m"
| "observable_of OnXRReferenceSpaceChanged m = onXRReferenceSpaceChanged m"
| "observable_of OnXRSessionEnded m = onXRSessionEnded m"
| "observable_of OnXRSessionInit m = onXRSessionInit m"
| "observable_of OnXRSessionMoved m = onXRSessionMoved m"

fun set_observable :: "signal \<Rightarrow> Observable \<Rightarrow> WebXRSessionManager \<Rightarrow> WebXRSessionManager" where
  "set_observable OnXRFrame obs m = m\<lparr>onXRFrameObservable := obs\<rparr>"
| "set_observable OnXRReferenceSpaceChanged obs m = m\<lparr>onXRReferenceSpaceChanged := obs\<rparr>"
| "set_observable OnXRSessionEnded obs m = m\<lparr>onXRSessionEnded := obs\<rparr>"
| "set_observable OnXRSessionInit obs m = m\<lparr>onXRSessionInit := obs\<rparr>"
| "set_observable OnXRSessionMoved obs m = m\<lparr>onXRSessionMoved := obs\<rparr>"

definition notifyObservers :: "signal \<Rightarrow> payload \<Rightarrow> world \<Rightarrow> world" where
  "notifyObservers s arg w =
     on_mgr (set_observable s (after_notify (observable_of s (mgr w))))
       (emit [Notify s arg (observable_of s (mgr w)) (mgr w)] w)"

subsection \<open>Construction\<close>

datatype SceneOrEngine = AScene Scene Engine | AnEngine Engine

definition field_defaults :: "Engine \<Rightarrow> WebXRSessionManager" where
  "field_defaults e =
     \<lparr>priv_referenceSpace = None, priv_baseLayerWrapper = None, priv_baseLayerRTTProvider = None,
      priv_xrNavigator = None, priv_sessionMode = None, priv_renderState = None,
      priv_renderTarget = None, engine = Some e, scene = None, persistent = False,
      baseReferenceSpace = None, currentFrame = None, currentTimestamp = Num (- 1),
      defaultHeightCompensation = Num 1.7, onXRFrameObservable = [],
      onXRReferenceSpaceChanged = [], onXRSessionEnded = [], onXRSessionInit = [],
      onXRSessionMoved = [], session = None, viewerReferenceSpace = None,
      inXRFrameLoop = False, inXRSession = False\<rparr>"

fun constructor :: "SceneOrEngine \<Rightarrow> world" where
  "constructor (AScene sc e) =
     \<lparr>mgr = (field_defaults e)\<lparr>scene := Some sc\<rparr>, endListeners = [], trace = [SceneDisposeAddOnce sc]\<rparr>"
| "constructor (AnEngine e) =
     \<lparr>mgr = (field_defaults e)\<lparr>persistent := True\<rparr>, endListeners = [], trace = []\<rparr>"

subsection \<open>The reference space property\<close>

definition referenceSpace :: "WebXRSessionManager \<Rightarrow> XRReferenceSpace option" where
  "referenceSpace m = priv_referenceSpace m"

definition set_referenceSpace :: "XRReferenceSpace option \<Rightarrow> world \<Rightarrow> world" where
  "set_referenceSpace newReferenceSpace w =
     (let w1 = on_mgr (\<lambda>m. m\<lparr>priv_referenceSpace := newReferenceSpace\<rparr>) w
      in notifyObservers OnXRReferenceSpaceChanged (SpaceArg (priv_referenceSpace (mgr w1))) w1)"

definition resetReferenceSpace :: "world \<Rightarrow> world" where
  "resetReferenceSpace w = set_referenceSpace (baseReferenceSpace (mgr w)) w"

definition sessionMode :: "WebXRSessionManager \<Rightarrow> XRSessionMode option" where
  "sessionMode m = priv_sessionMode m"

subsection \<open>Execution context\<close>

text \<open>
  \<^verbatim>\<open>this._xrNavigator.xr.native ?? false\<close>. Reading \<^verbatim>\<open>xr\<close> before \<^verbatim>\<open>initializeAsync\<close>
  stored the navigator, or \<^verbatim>\<open>native\<close> off a missing \<^verbatim>\<open>xr\<close>, is a TypeError.
\<close>

definition isNative :: "WebXRSessionManager \<Rightarrow> error + bool" where
  "isNative m =
     (case priv_xrNavigator m of
        None \<Rightarrow> Inl TypeError
      | Some nav \<Rightarrow>
          (case xr nav of
             None \<Rightarrow> Inl TypeError
           | Some x \<Rightarrow> Inr (case native x of None \<Rightarrow> False | Some b \<Rightarrow> b)))"

definition getWebXRRenderTarget :: "WebXRSessionManager \<Rightarrow> error + WebXRRenderTarget" where
  "getWebXRRenderTarget m =
     (case isNative m of
        Inl e \<Rightarrow> Inl e
      | Inr n \<Rightarrow> Inr (if n then NativeXRRenderTarget else WebXRManagedOutputCanvas))"

definition initializeAsync :: "Navigator \<Rightarrow> world \<Rightarrow> (error + unit) \<times> world" where
  "initializeAsync navigator w =
     (let w1 = on_mgr (\<lambda>m. m\<lparr>priv_xrNavigator := Some navigator\<rparr>) w
      in if xr navigator = None then (Inl (Thrown ''WebXR not available''), w1) else (Inr (), w1))"

subsection \<open>Session start and end\<close>

text \<open>
  \<^verbatim>\<open>exitXRAsync\<close>. A rejection of \<^verbatim>\<open>session.end()\<close> is caught and logged by the
  code, so the promise it returns always resolves; the "end" event itself arrives later,
  as a step of its own.
\<close>

definition exitXRAsync :: "world \<Rightarrow> world" where
  "exitXRAsync w =
     (case session (mgr w) of
        None \<Rightarrow> w
      | Some s \<Rightarrow>
          if inXRSession (mgr w)
          then emit [SessionEnd s] (on_mgr (\<lambda>m. m\<lparr>inXRSession := False\<rparr>) w)
          else w)"

text \<open>The body of the "end" listener that \<^verbatim>\<open>initializeSessionAsync\<close> registers.\<close>

definition endHandler :: "world \<Rightarrow> (error + unit) \<times> world" where
  "endHandler w =
     (let w1 = on_mgr (\<lambda>m. m\<lparr>inXRSession := False\<rparr>) w;
          w2 = notifyObservers OnXRSessionEnded NullArg w1;
          w3 = (case engine (mgr w2) of
                  None \<Rightarrow> w2
                | Some e \<Rightarrow>
                    emit [RenderLoop]
                      (on_mgr (\<lambda>m. m\<lparr>engine := Some (e\<lparr>framebufferDimensionsObject := None,
                                                         customAnimationFrameRequester := False\<rparr>)\<rparr>)
                        (emit [RestoreDefaultFramebuffer] w2)))
      in case isNative (mgr w3) of
           Inl e \<Rightarrow> (Inl e, w3)
         | Inr n \<Rightarrow>
             (let w4 = (if n then (case priv_baseLayerRTTProvider (mgr w3) of
                                     None \<Rightarrow> w3
                                   | Some p \<Rightarrow> emit [ProviderDispose p] w3)
                        else w3)
              in (Inr (), on_mgr (\<lambda>m. m\<lparr>priv_baseLayerRTTProvider := None,
                                          priv_baseLayerWrapper := None\<rparr>) w4)))"

text \<open>
  The platform fires "end" on a session, after \<^verbatim>\<open>session.end()\<close> or on its own. The
  listener was registered with \<^verbatim>\<open>once: true\<close>: it runs if it is pending, and is gone
  afterwards.
\<close>

definition sessionEndEvent :: "XRSession \<Rightarrow> world \<Rightarrow> (error + unit) \<times> world" where
  "sessionEndEvent s w =
     (if sessionId s \<in> set (endListeners w)
      then endHandler (w\<lparr>endListeners := remove1 (sessionId s) (endListeners w)\<rparr>)
      else (Inr (), w))"

text \<open>
  \<^verbatim>\<open>initializeSessionAsync\<close>, with the platform's answer to \<^verbatim>\<open>requestSession\<close> as an
  argument. The statements of the \<^verbatim>\<open>then\<close> callback are kept in the order of the source.
\<close>

definition initializeSessionAsync ::
  "XRSessionMode \<Rightarrow> XRSessionInit \<Rightarrow> reason + XRSession \<Rightarrow> world \<Rightarrow> (error + XRSession) \<times> world" where
  "initializeSessionAsync xrSessionMode xrSessionInit answer w =
     (case priv_xrNavigator (mgr w) of
        None \<Rightarrow> (Inl TypeError, w)
      | Some nav \<Rightarrow>
          (case xr nav of
             None \<Rightarrow> (Inl TypeError, w)
           | Some x \<Rightarrow>
               (let w0 = emit [RequestSession xrSessionMode xrSessionInit] w
                in case answer of
                     Inl r \<Rightarrow> (Inl (Rejected r), w0)
                   | Inr s \<Rightarrow>
                       (let w1 = on_mgr (\<lambda>m. m\<lparr>session := Some s\<rparr>) w0;
                            w2 = on_mgr (\<lambda>m. m\<lparr>priv_sessionMode := Some xrSessionMode\<rparr>) w1;
                            w3 = notifyObservers OnXRSessionInit (SessionArg (Some s)) w2;
                            w4 = on_mgr (\<lambda>m. m\<lparr>inXRSession := True\<rparr>) w3;
                            w5 = emit [AddEndListener s] (w4\<lparr>endListeners := endListeners w4 @ [sessionId s]\<rparr>)
                        in (Inr s, w5)))))"

text \<open>\<^verbatim>\<open>IsSessionSupportedAsync\<close>, static, on the ambient navigator.\<close>

definition IsSessionSupportedAsync :: "Navigator \<Rightarrow> XRSessionMode \<Rightarrow> error + bool" where
  "IsSessionSupportedAsync navigator sessionMode' =
     (case xr navigator of
        None \<Rightarrow> Inr False
      | Some x \<Rightarrow>
          (case (case isSessionSupported x of Some f \<Rightarrow> Some f | None \<Rightarrow> supportsSession x) of
             None \<Rightarrow> Inr False
           | Some functionToUse \<Rightarrow>
               (case functionToUse sessionMode' of
                  Inr result \<Rightarrow> Inr (case result of None \<Rightarrow> True | Some b \<Rightarrow> b)
                | Inl e \<Rightarrow> Inr False)))"

definition isSessionSupportedAsync :: "Navigator \<Rightarrow> WebXRSessionManager \<Rightarrow> XRSessionMode \<Rightarrow> error + bool" where
  "isSessionSupportedAsync navigator m sessionMode' = IsSessionSupportedAsync navigator sessionMode'"

subsection \<open>Disposal\<close>

definition dispose :: "bool \<Rightarrow> world \<Rightarrow> world" where
  "dispose all w =
     (let w1 = (if inXRSession (mgr w) \<and> (\<not> persistent (mgr w) \<or> all) then exitXRAsync w else w);
          w2 = on_mgr (\<lambda>m. m\<lparr>onXRFrameObservable := clear (onXRFrameObservable m)\<rparr>) w1;
          w3 = on_mgr (\<lambda>m. m\<lparr>onXRReferenceSpaceChanged := clear (onXRReferenceSpaceChanged m)\<rparr>) w2;
          w4 = on_mgr (\<lambda>m. m\<lparr>onXRSessionInit := clear (onXRSessionInit m)\<rparr>) w3
      in if \<not> persistent (mgr w4) \<or> all
         then (let w5 = on_mgr (\<lambda>m. m\<lparr>priv_renderTarget := None\<rparr>) w4;
                   w6 = on_mgr (\<lambda>m. m\<lparr>priv_renderState := None\<rparr>) w5;
                   w7 = (case engine (mgr w6) of None \<Rightarrow> w6 | Some e \<Rightarrow> emit [EngineRemoveDisposeObserver] w6)
               in on_mgr (\<lambda>m. m\<lparr>onXRSessionEnded := clear (onXRSessionEnded m)\<rparr>) w7)
         else w4)"

subsection \<open>The frame loop\<close>

text \<open>\<^verbatim>\<open>this._baseLayerRTTProvider?.getFramebufferDimensions() || null\<close>\<close>

definition providerDimensions :: "WebXRSessionManager \<Rightarrow> (nat \<times> nat) option" where
  "providerDimensions m =
     (case priv_baseLayerRTTProvider m of None \<Rightarrow> None | Some p \<Rightarrow> getFramebufferDimensions p)"

text \<open>
  \<^verbatim>\<open>runXRRenderLoop\<close>; the argument says whether \<^verbatim>\<open>window.cancelAnimationFrame\<close> exists.
\<close>

definition runXRRenderLoop :: "bool \<Rightarrow> world \<Rightarrow> world" where
  "runXRRenderLoop hasWindow w =
     (case engine (mgr w) of
        None \<Rightarrow> w
      | Some e \<Rightarrow>
          if \<not> inXRSession (mgr w) then w
          else (let w1 = on_mgr (\<lambda>m. m\<lparr>engine := Some (e\<lparr>customAnimationFrameRequester := True\<rparr>)\<rparr>) w;
                    w2 = on_mgr (\<lambda>m. m\<lparr>engine := map_option
                                   (\<lambda>e. e\<lparr>framebufferDimensionsObject := providerDimensions m\<rparr>) (engine m)\<rparr>) w1;
                    w3 = (if hasWindow then emit [CancelAnimationFrame] w2 else w2)
                in emit [RenderLoop] w3))"

text \<open>The \<^verbatim>\<open>renderFunction\<close> that \<^verbatim>\<open>runXRRenderLoop\<close> installs on the engine.\<close>

definition renderFunction :: "number \<Rightarrow> XRFrame option \<Rightarrow> world \<Rightarrow> world" where
  "renderFunction timestamp xrFrame w =
     (case engine (mgr w) of
        None \<Rightarrow> w
      | Some e0 \<Rightarrow>
          if \<not> inXRSession (mgr w) then w
          else (let w1 = on_mgr (\<lambda>m. m\<lparr>currentFrame := xrFrame, currentTimestamp := timestamp\<rparr>) w
                in case xrFrame of
                     None \<Rightarrow> w1
                   | Some f \<Rightarrow>
                       (let w2 = on_mgr (\<lambda>m. m\<lparr>inXRFrameLoop := True\<rparr>) w1;
                            w3 = on_mgr (\<lambda>m. m\<lparr>engine := map_option
                                    (\<lambda>e. e\<lparr>framebufferDimensionsObject := providerDimensions m\<rparr>) (engine m)\<rparr>) w2;
                            w4 = notifyObservers OnXRFrame (FrameArg f) w3;
                            w5 = emit [RenderLoop] w4;
                            w6 = on_mgr (\<lambda>m. m\<lparr>engine := map_option
                                    (\<lambda>e. e\<lparr>framebufferDimensionsObject := None\<rparr>) (engine m)\<rparr>) w5
                        in on_mgr (\<lambda>m. m\<lparr>inXRFrameLoop := False\<rparr>) w6)))"

text \<open>The engine drives the installed requester once per device frame.\<close>

definition frameTick :: "number \<Rightarrow> XRFrame option \<Rightarrow> world \<Rightarrow> world" where
  "frameTick timestamp xrFrame w =
     (case engine (mgr w) of
        None \<Rightarrow> w
      | Some e \<Rightarrow> if customAnimationFrameRequester e then renderFunction timestamp xrFrame w else w)"

definition runInXRFrame :: "nat \<Rightarrow> bool \<Rightarrow> world \<Rightarrow> world" where
  "runInXRFrame callback ignoreIfNotInSession w =
     (if inXRFrameLoop (mgr w) then emit [RunCallback callback] w
      else if inXRSession (mgr w) \<or> \<not> ignoreIfNotInSession
      then on_mgr (\<lambda>m. m\<lparr>onXRFrameObservable := addOnce callback (onXRFrameObservable m)\<rparr>) w
      else w)"

subsection \<open>Reference space negotiation\<close>

text \<open>
  The platform's answers to \<^verbatim>\<open>requestReferenceSpace\<close> are an argument: \<open>answer i t\<close> is
  the outcome of asking for type \<open>t\<close> as the request number \<open>i\<close> of the call, counted
  from 0, so that two requests for the same type may be answered differently.
\<close>

type_synonym spaces = "nat \<Rightarrow> XRReferenceSpaceType \<Rightarrow> reason + XRReferenceSpace"

definition viewer_unavailable :: string where
  \<open>viewer_unavailable = ''XR initialization failed: required "viewer" reference space type not supported.''\<close>

definition defaulting_to_viewer :: string where
  \<open>defaulting_to_viewer = ''Defaulting to universally-supported "viewer" reference space type.''\<close>

text \<open>
  The first \<^verbatim>\<open>then\<close> of \<^verbatim>\<open>setReferenceSpaceTypeAsync\<close>, with both of its handlers:
  the result, the number of requests made, and the world.
\<close>

definition negotiate ::
  "spaces \<Rightarrow> XRReferenceSpaceType \<Rightarrow> world \<Rightarrow> (error + XRReferenceSpace) \<times> nat \<times> world" where
  \<open>negotiate answer referenceSpaceType w =
     (let w1 = emit [RequestReferenceSpace referenceSpaceType] w
      in case answer 0 referenceSpaceType of
           Inr referenceSpace' \<Rightarrow> (Inr referenceSpace', 1, w1)
         | Inl rejectionReason \<Rightarrow>
             (let w2 = emit [LoggerError ''XR.requestReferenceSpace failed for the following reason: '',
                             LoggerError rejectionReason,
                             LoggerLog defaulting_to_viewer,
                             RequestReferenceSpace Viewer] w1
              in case answer 1 Viewer of
                   Inr referenceSpace' \<Rightarrow>
                     (let heightCompensation =
                            XRRigidTransform (Num 0, negate (defaultHeightCompensation (mgr w2)), Num 0)
                      in (Inr (getOffsetReferenceSpace referenceSpace' heightCompensation), 2, w2))
                 | Inl rejectionReason2 \<Rightarrow>
                     (Inl (Thrown viewer_unavailable), 2, emit [LoggerError rejectionReason2] w2)))\<close>

text \<open>
  \<^verbatim>\<open>setReferenceSpaceTypeAsync\<close>: the negotiation, then the parallel viewer space, then
  the assignment \<^verbatim>\<open>this.referenceSpace = this.baseReferenceSpace = referenceSpace\<close>. The
  chain is run as one step; it begins with a read of \<^verbatim>\<open>this.session\<close>.
\<close>

definition setReferenceSpaceTypeAsync ::
  "spaces \<Rightarrow> XRReferenceSpaceType \<Rightarrow> world \<Rightarrow> (error + XRReferenceSpace option) \<times> world" where
  "setReferenceSpaceTypeAsync answer referenceSpaceType w =
     (case session (mgr w) of
        None \<Rightarrow> (Inl TypeError, w)
      | Some s \<Rightarrow>
          (case negotiate answer referenceSpaceType w of
             (Inl e, n, w1) \<Rightarrow> (Inl e, w1)
           | (Inr referenceSpace', n, w1) \<Rightarrow>
               (let w2 = emit [RequestReferenceSpace Viewer] w1
                in case answer n Viewer of
                     Inl r \<Rightarrow> (Inl (Rejected r), w2)
                   | Inr viewerReferenceSpace' \<Rightarrow>
                       (let w3 = on_mgr (\<lambda>m. m\<lparr>viewerReferenceSpace := Some viewerReferenceSpace'\<rparr>) w2;
                            w4 = on_mgr (\<lambda>m. m\<lparr>baseReferenceSpace := Some referenceSpace'\<rparr>) w3;
                            w5 = set_referenceSpace (Some referenceSpace') w4
                        in (Inr (referenceSpace (mgr w5)), w5)))))"

subsection \<open>Render state, render target and layer wrapper\<close>

definition setBaseLayerWrapper :: "WebXRLayerWrapper option \<Rightarrow> world \<Rightarrow> world" where
  "setBaseLayerWrapper baseLayerWrapper w =
     (let w1 = (case priv_baseLayerRTTProvider (mgr w) of None \<Rightarrow> w | Some p \<Rightarrow> emit [ProviderDispose p] w);
          w2 = on_mgr (\<lambda>m. m\<lparr>priv_baseLayerWrapper := baseLayerWrapper\<rparr>) w1
      in on_mgr (\<lambda>m. m\<lparr>priv_baseLayerRTTProvider :=
                         (case priv_baseLayerWrapper m of
                            None \<Rightarrow> None
                          | Some lw \<Rightarrow> createRenderTargetTextureProvider lw)\<rparr>) w2)"

definition getBaseLayerWrapper :: "WebXRSessionManager \<Rightarrow> WebXRLayerWrapper option" where
  "getBaseLayerWrapper m = priv_baseLayerWrapper m"

definition updateRenderTarget :: "WebXRRenderTarget \<Rightarrow> world \<Rightarrow> world" where
  "updateRenderTarget renderTarget w = on_mgr (\<lambda>m. m\<lparr>priv_renderTarget := Some renderTarget\<rparr>) w"

definition updateRenderState :: "XRRenderStateInit \<Rightarrow> world \<Rightarrow> (error + unit) \<times> world" where
  "updateRenderState state w =
     (let w1 = on_mgr (\<lambda>m. m\<lparr>priv_renderState := Some state\<rparr>) w;
          r = (case baseLayer state of
                 None \<Rightarrow> (Inr (), w1)
               | Some l \<Rightarrow>
                   (case isNative (mgr w1) of
                      Inl e \<Rightarrow> (Inl e, w1)
                    | Inr n \<Rightarrow>
                        (Inr (), setBaseLayerWrapper
                                   (Some (new_wrapper (if n then NativeXRLayerWrapper
                                                       else WebXRWebGLLayerWrapper) l)) w1)))
      in case r of
           (Inl e, w2) \<Rightarrow> (Inl e, w2)
         | (Inr u, w2) \<Rightarrow>
             (case session (mgr w2) of
                None \<Rightarrow> (Inl TypeError, w2)
              | Some s \<Rightarrow> (Inr (), emit [SessionUpdateRenderState state] w2)))"

definition updateRenderStateAsync :: "XRRenderStateInit \<Rightarrow> world \<Rightarrow> (error + unit) \<times> world" where
  "updateRenderStateAsync state w =
     (case session (mgr w) of
        None \<Rightarrow> (Inl TypeError, w)
      | Some s \<Rightarrow> (Inr (), emit [SessionUpdateRenderState state] w))"

text \<open>\<^verbatim>\<open>updateTargetFrameRate\<close>, with the platform's answer.\<close>

definition updateTargetFrameRate :: "number \<Rightarrow> reason option \<Rightarrow> world \<Rightarrow> (error + unit) \<times> world" where
  "updateTargetFrameRate rate answer w =
     (case session (mgr w) of
        None \<Rightarrow> (Inl TypeError, w)
      | Some s \<Rightarrow>
          (case answer of None \<Rightarrow> Inr () | Some r \<Rightarrow> Inl (Rejected r),
           emit [SessionUpdateTargetFrameRate rate] w))"

definition enabledFeatures :: "WebXRSessionManager \<Rightarrow> string list option" where
  "enabledFeatures m = (case session m of None \<Rightarrow> None | Some s \<Rightarrow> sessionEnabledFeatures s)"

subsection \<open>Moving the session to another scene\<close>

text \<open>
  What the \<^verbatim>\<open>hookUp\<close> callback of the caller does is its subscriptions, in order. The
  name of the layers feature is a constant declared outside the sources and is an
  argument, as is the platform's answer to \<^verbatim>\<open>initializeXRLayerAsync\<close>.
\<close>

type_synonym hookUp = "(signal \<times> Observer) list"

definition run_hookUp :: "hookUp \<Rightarrow> world \<Rightarrow> world" where
  "run_hookUp h w =
     fold (\<lambda>(s, ob) v. on_mgr (\<lambda>m. set_observable s (observable_of s m @ [ob]) m) v) h (emit [HookUp] w)"

text \<open>
  The body of \<^verbatim>\<open>if (this.inXRSession && this._renderState)\<close>: a render target is made
  if there is none, its layer is awaited, and the render state is applied again.
\<close>

definition ensure_renderTarget :: "world \<Rightarrow> (error + WebXRRenderTarget) \<times> world" where
  "ensure_renderTarget w =
     (case priv_renderTarget (mgr w) of
        Some t \<Rightarrow> (Inr t, w)
      | None \<Rightarrow>
          (case getWebXRRenderTarget (mgr w) of
             Inl e \<Rightarrow> (Inl e, w)
           | Inr t \<Rightarrow> (Inr t, updateRenderTarget t w)))"

definition reapply_renderState ::
  "string \<Rightarrow> reason + XRLayer option \<Rightarrow> XRRenderStateInit \<Rightarrow> world \<Rightarrow> (error + unit) \<times> world" where
  "reapply_renderState LAYERS layerAnswer rs w =
     (case ensure_renderTarget w of
        (Inl e, w2) \<Rightarrow> (Inl e, w2)
      | (Inr t, w2) \<Rightarrow>
          (let w3 = emit [InitializeXRLayer t] w2
           in case layerAnswer of
                Inl reason' \<Rightarrow> (Inl (Rejected reason'), w3)
              | Inr baseLayer' \<Rightarrow>
                  updateRenderState
                    (if \<not> (case enabledFeatures (mgr w3) of None \<Rightarrow> False | Some fs \<Rightarrow> LAYERS \<in> set fs)
                     then rs\<lparr>baseLayer := baseLayer'\<rparr> else rs) w3))"

text \<open>The rest of the method: the callback, then the two notifications.\<close>

definition rehook :: "hookUp \<Rightarrow> world \<Rightarrow> world" where
  "rehook h w =
     (let w5 = run_hookUp h w;
          w6 = notifyObservers OnXRSessionMoved (SessionArg (session (mgr w5))) w5
      in if inXRSession (mgr w6)
         then notifyObservers OnXRSessionInit (SessionArg (session (mgr w6))) w6
         else w6)"

definition mgr_moveXRToScene ::
  "string \<Rightarrow> reason + XRLayer option \<Rightarrow> Scene \<Rightarrow> hookUp \<Rightarrow> world \<Rightarrow> (error + unit) \<times> world" where
  "mgr_moveXRToScene LAYERS layerAnswer nextScene h w =
     (let w1 = on_mgr (\<lambda>m. m\<lparr>scene := Some nextScene\<rparr>) w
      in case (case priv_renderState (mgr w1) of
                 None \<Rightarrow> (Inr (), w1)
               | Some rs \<Rightarrow>
                   if inXRSession (mgr w1) then reapply_renderState LAYERS layerAnswer rs w1
                   else (Inr (), w1)) of
           (Inl e, w4) \<Rightarrow> (Inl e, w4)
         | (Inr u, w4) \<Rightarrow> (Inr (), rehook h w4))"

subsection \<open>Fixed foveation\<close>

definition isFixedFoveationSupported :: "WebXRSessionManager \<Rightarrow> bool" where
  "isFixedFoveationSupported m =
     (case priv_baseLayerWrapper m of None \<Rightarrow> False | Some w \<Rightarrow> wrapperIsFixedFoveationSupported w)"

definition fixedFoveation :: "WebXRSessionManager \<Rightarrow> number option" where
  "fixedFoveation m =
     (case priv_baseLayerWrapper m of None \<Rightarrow> None | Some w \<Rightarrow> or_null (wrapper_get_fixedFoveation w))"

definition set_fixedFoveation :: "number option \<Rightarrow> WebXRSessionManager \<Rightarrow> WebXRSessionManager" where
  "set_fixedFoveation v m =
     (let val = Math_max (Num 0) (Math_min (Num 1) (or_zero v)) in
      case priv_baseLayerWrapper m of
        None \<Rightarrow> m
      | Some w \<Rightarrow> m\<lparr>priv_baseLayerWrapper := Some (wrapper_set_fixedFoveation val w)\<rparr>)"

section \<open>The default experience\<close>

text \<open>The switches of \<^verbatim>\<open>WebXRDefaultExperienceOptions\<close> that the control flow reads.\<close>

record WebXRDefaultExperienceOptions =
  disableDefaultUI :: bool
  disablePointerSelection :: bool
  disableTeleportation :: bool
  disableNearInteraction :: bool
  ignoreNativeCameraTransformation :: bool
  useStablePlugins :: bool

text \<open>
  Modelled from the spec: \<^verbatim>\<open>WebXRExperienceHelper\<close> is not among the sources. The base
  experience holds the session manager (here the manager of the world), a camera and a
  features manager bound to a scene. Its \<^verbatim>\<open>dispose(all)\<close> disposes the session manager
  with the same argument, as the comment on the manager's \<^verbatim>\<open>moveXRToScene\<close> says
  ("Dispose has already been called"); its \<^verbatim>\<open>moveXRToScene\<close> makes a camera and a
  features manager for the next scene.
\<close>

record WebXRExperienceHelper =
  helperScene :: "Scene option"
  compensateOnFirstFrame :: bool

record WebXRDefaultExperience =
  options :: WebXRDefaultExperienceOptions
  exp_persistent :: bool
  baseExperience :: "WebXRExperienceHelper option"
  enterExitUI :: bool
  input :: bool
  pointerSelection :: bool
  renderTarget :: "WebXRRenderTarget option"
  teleportation :: bool
  nearInteraction :: bool

record xworld = world +
  experience :: WebXRDefaultExperience

definition on_world :: "(world \<Rightarrow> world) \<Rightarrow> xworld \<Rightarrow> xworld" where
  "on_world f x =
     (let w = f \<lparr>mgr = mgr x, endListeners = endListeners x, trace = trace x\<rparr>
      in x\<lparr>mgr := mgr w, endListeners := endListeners w, trace := trace w\<rparr>)"

definition on_exp :: "(WebXRDefaultExperience \<Rightarrow> WebXRDefaultExperience) \<Rightarrow> xworld \<Rightarrow> xworld" where
  "on_exp f x = x\<lparr>experience := f (experience x)\<rparr>"

definition xemit :: "event list \<Rightarrow> xworld \<Rightarrow> xworld" where
  "xemit es x = x\<lparr>trace := trace x @ es\<rparr>"

definition helper_dispose :: "bool \<Rightarrow> xworld \<Rightarrow> xworld" where
  "helper_dispose all x = on_world (dispose all) (xemit [BaseExperienceDispose all] x)"

definition helper_moveXRToScene :: "Scene \<Rightarrow> xworld \<Rightarrow> xworld" where
  "helper_moveXRToScene nextScene x =
     on_exp (\<lambda>d. d\<lparr>baseExperience := Some \<lparr>helperScene = Some nextScene, compensateOnFirstFrame = True\<rparr>\<rparr>)
       (xemit [BaseExperienceMove nextScene] x)"

definition teleport_not_suitable :: string where
  "teleport_not_suitable = ''Teleport option not suitable to define at engine level for persistent mode''"

definition must_be_persistent :: string where
  "must_be_persistent = ''DefaultExperience must be instanced with CreatePersistentAsync() to move XR''"

text \<open>\<^verbatim>\<open>_initializeScene\<close>; it reads \<^verbatim>\<open>this.baseExperience\<close> at once.\<close>

definition initializeScene :: "xworld \<Rightarrow> (error + unit) \<times> xworld" where
  "initializeScene x =
     (case baseExperience (experience x) of
        None \<Rightarrow> (Inl TypeError, x)
      | Some h \<Rightarrow>
          (let opts = options (experience x);
               x1 = (if ignoreNativeCameraTransformation opts
                     then on_exp (\<lambda>d. d\<lparr>baseExperience := Some (h\<lparr>compensateOnFirstFrame := False\<rparr>)\<rparr>) x
                     else x);
               x2 = on_exp (\<lambda>d. d\<lparr>input := True\<rparr>) (xemit [NewInput] x1);
               r = (if \<not> disablePointerSelection opts
                    then (let x3 = on_exp (\<lambda>d. d\<lparr>pointerSelection := True\<rparr>)
                                     (xemit [EnableFeature PointerSelection (useStablePlugins opts)] x2)
                          in if \<not> disableTeleportation opts
                             then (if exp_persistent (experience x3)
                                   then (Inl (Thrown teleport_not_suitable), x3)
                                   else (Inr (), xemit [SetSelectionFeature]
                                                   (on_exp (\<lambda>d. d\<lparr>teleportation := True\<rparr>)
                                                      (xemit [EnableFeature Teleportation (useStablePlugins opts)] x3))))
                             else (Inr (), x3))
                    else (Inr (), x2))
           in case r of
                (Inl e, x4) \<Rightarrow> (Inl e, x4)
              | (Inr u, x4) \<Rightarrow>
                  if \<not> disableNearInteraction opts
                  then (Inr (), on_exp (\<lambda>d. d\<lparr>nearInteraction := True\<rparr>)
                                  (xemit [EnableFeature NearInteraction (useStablePlugins opts)] x4))
                  else (Inr (), x4)))"

text \<open>\<^verbatim>\<open>WebXRDefaultExperience.dispose\<close>\<close>

definition exp_dispose :: "bool \<Rightarrow> xworld \<Rightarrow> xworld" where
  "exp_dispose all x =
     (let shouldClear = (\<not> exp_persistent (experience x) \<or> all);
          x1 = (if baseExperience (experience x) \<noteq> None then helper_dispose all x else x);
          x2 = (if input (experience x1) then xemit [InputDispose] x1 else x1);
          x3 = (if enterExitUI (experience x2) \<and> shouldClear then xemit [EnterExitUIDispose] x2 else x2)
      in case renderTarget (experience x3) of
           None \<Rightarrow> x3
         | Some t \<Rightarrow> if shouldClear then xemit [RenderTargetDispose t] x3 else x3)"

text \<open>
  \<^verbatim>\<open>WebXRDefaultExperience.moveXRToScene\<close>. The call of the manager's
  \<^verbatim>\<open>moveXRToScene\<close> at its end is not awaited: a rejection there does not reach the
  promise this function returns.
\<close>

definition moveXRToScene ::
  "string \<Rightarrow> reason + XRLayer option \<Rightarrow> Scene \<Rightarrow> hookUp \<Rightarrow> xworld \<Rightarrow> (error + unit) \<times> xworld" where
  "moveXRToScene LAYERS layerAnswer nextScene h x =
     (if \<not> exp_persistent (experience x) then (Inl (Thrown must_be_persistent), x)
      else (let x1 = exp_dispose False x
            in case baseExperience (experience x1) of
                 None \<Rightarrow> (Inl TypeError, x1)
               | Some b \<Rightarrow>
                   (case initializeScene (helper_moveXRToScene nextScene x1) of
                      (Inl e, x3) \<Rightarrow> (Inl e, x3)
                    | (Inr u, x3) \<Rightarrow>
                        (Inr (), on_world (\<lambda>w. snd (mgr_moveXRToScene LAYERS layerAnswer nextScene h w)) x3))))"

text \<open>
  The two factories. The base experience is made on the scene or on the engine and
  initialized against the ambient navigator; any failure on the way is logged and the
  experience is returned as far as it got.
\<close>

definition new_experience :: "WebXRDefaultExperienceOptions \<Rightarrow> WebXRDefaultExperience" where
  "new_experience opts =
     \<lparr>options = opts, exp_persistent = False, baseExperience = None, enterExitUI = False, input = False,
      pointerSelection = False, renderTarget = None, teleportation = False, nearInteraction = False\<rparr>"

definition helper_CreateAsync :: "SceneOrEngine \<Rightarrow> Navigator \<Rightarrow> WebXRDefaultExperience \<Rightarrow> (error + unit) \<times> xworld" where
  "helper_CreateAsync se navigator d =
     (case initializeAsync navigator (constructor se) of
        (r, w) \<Rightarrow> (r, \<lparr>mgr = mgr w, endListeners = endListeners w, trace = trace w, experience = d\<rparr>))"

definition addUI :: "xworld \<Rightarrow> xworld" where
  "addUI x =
     (if \<not> disableDefaultUI (options (experience x))
      then on_exp (\<lambda>d. d\<lparr>enterExitUI := True\<rparr>) (xemit [NewEnterExitUI] x)
      else x)"

definition finish_create :: "(error + unit) \<times> xworld \<Rightarrow> xworld" where
  "finish_create r =
     (case r of
        (Inl e, x) \<Rightarrow> xemit [LoggerError ''Error initializing XR''] x
      | (Inr u, x) \<Rightarrow> x)"

definition make_target :: "xworld \<Rightarrow> (error + unit) \<times> xworld" where
  "make_target x =
     (case getWebXRRenderTarget (mgr x) of
        Inl e \<Rightarrow> (Inl e, x)
      | Inr t \<Rightarrow>
          (let x1 = on_exp (\<lambda>d. d\<lparr>renderTarget := Some t\<rparr>) x
           in (Inr (), if \<not> disableDefaultUI (options (experience x1)) then addUI x1 else x1)))"

definition CreateAsync :: "Scene \<Rightarrow> Engine \<Rightarrow> Navigator \<Rightarrow> WebXRDefaultExperienceOptions \<Rightarrow> xworld" where
  "CreateAsync sc e navigator opts =
     finish_create
       (case helper_CreateAsync (AScene sc e) navigator (new_experience opts) of
          (Inl err, x) \<Rightarrow> (Inl err, x)
        | (Inr u, x) \<Rightarrow>
            (case initializeScene
                    (on_exp (\<lambda>d. d\<lparr>baseExperience := Some \<lparr>helperScene = Some sc, compensateOnFirstFrame = True\<rparr>\<rparr>) x) of
               (Inl err, x1) \<Rightarrow> (Inl err, x1)
             | (Inr u, x1) \<Rightarrow> make_target x1))"

definition persistent_defaults :: WebXRDefaultExperienceOptions where
  "persistent_defaults =
     \<lparr>disableDefaultUI = False, disablePointerSelection = False, disableTeleportation = True,
      disableNearInteraction = True, ignoreNativeCameraTransformation = False, useStablePlugins = False\<rparr>"

text \<open>\<^verbatim>\<open>CreatePersistentAsync\<close>; no options given is \<open>None\<close>.\<close>

definition CreatePersistentAsync :: "Engine \<Rightarrow> Navigator \<Rightarrow> WebXRDefaultExperienceOptions option \<Rightarrow> xworld" where
  "CreatePersistentAsync e navigator opts =
     finish_create
       (case helper_CreateAsync (AnEngine e) navigator
               ((new_experience (case opts of None \<Rightarrow> persistent_defaults | Some v \<Rightarrow> v))\<lparr>exp_persistent := True\<rparr>) of
          (Inl err, x) \<Rightarrow> (Inl err, x)
        | (Inr u, x) \<Rightarrow>
            make_target
              (on_exp (\<lambda>d. d\<lparr>baseExperience := Some \<lparr>helperScene = None, compensateOnFirstFrame = True\<rparr>\<rparr>) x))"

section \<open>Runs of the manager\<close>

text \<open>
  The operations that change a manager, as calls: its methods, its property setters, the
  platform's "end" event and frame tick, a subscription to one of its observables, and a
  write to one of the public fields that other modules assign. The private fields can be
  written by the methods only.
\<close>

datatype call =
    Set_referenceSpace XRReferenceSpace
  | ResetReferenceSpace
  | Dispose bool
  | ExitXRAsync
  | InitializeAsync Navigator
  | InitializeSessionAsync XRSessionMode XRSessionInit "reason + XRSession"
  | SessionEndEvent XRSession
  | RunXRRenderLoop bool
  | FrameTick number "XRFrame option"
  | RunInXRFrame nat bool
  | SetReferenceSpaceTypeAsync spaces XRReferenceSpaceType
  | UpdateRenderTarget WebXRRenderTarget
  | UpdateRenderState XRRenderStateInit
  | UpdateRenderStateAsync XRRenderStateInit
  | UpdateTargetFrameRate number "reason option"
  | SetBaseLayerWrapper "WebXRLayerWrapper option"
  | Set_fixedFoveation "number option"
  | MoveXRToScene string "reason + XRLayer option" Scene hookUp
  | Subscribe signal Observer
  | Write_baseReferenceSpace XRReferenceSpace
  | Write_defaultHeightCompensation number

fun exec :: "call \<Rightarrow> world \<Rightarrow> world" where
  "exec (Set_referenceSpace sp) w = set_referenceSpace (Some sp) w"
| "exec ResetReferenceSpace w = resetReferenceSpace w"
| "exec (Dispose all) w = dispose all w"
| "exec ExitXRAsync w = exitXRAsync w"
| "exec (InitializeAsync navigator) w = snd (initializeAsync navigator w)"
| "exec (InitializeSessionAsync xrSessionMode xrSessionInit answer) w =
     snd (initializeSessionAsync xrSessionMode xrSessionInit answer w)"
| "exec (SessionEndEvent s) w = snd (sessionEndEvent s w)"
| "exec (RunXRRenderLoop hasWindow) w = runXRRenderLoop hasWindow w"
| "exec (FrameTick timestamp xrFrame) w = frameTick timestamp xrFrame w"
| "exec (RunInXRFrame callback ignoreIfNotInSession) w = runInXRFrame callback ignoreIfNotInSession w"
| "exec (SetReferenceSpaceTypeAsync answer referenceSpaceType) w =
     snd (setReferenceSpaceTypeAsync answer referenceSpaceType w)"
| "exec (UpdateRenderTarget target) w = updateRenderTarget target w"
| "exec (UpdateRenderState state) w = snd (updateRenderState state w)"
| "exec (UpdateRenderStateAsync state) w = snd (updateRenderStateAsync state w)"
| "exec (UpdateTargetFrameRate rate answer) w = snd (updateTargetFrameRate rate answer w)"
| "exec (SetBaseLayerWrapper lw) w = setBaseLayerWrapper lw w"
| "exec (Set_fixedFoveation v) w = on_mgr (set_fixedFoveation v) w"
| "exec (MoveXRToScene LAYERS layerAnswer nextScene h) w =
     snd (mgr_moveXRToScene LAYERS layerAnswer nextScene h w)"
| "exec (Subscribe s ob) w = on_mgr (\<lambda>m. set_observable s (observable_of s m @ [ob]) m) w"
| "exec (Write_baseReferenceSpace sp) w = on_mgr (\<lambda>m. m\<lparr>baseReferenceSpace := Some sp\<rparr>) w"
| "exec (Write_defaultHeightCompensation h) w = on_mgr (\<lambda>m. m\<lparr>defaultHeightCompensation := h\<rparr>) w"

text \<open>A run: a construction followed by calls, oldest first.\<close>

definition run :: "SceneOrEngine \<Rightarrow> call list \<Rightarrow> world" where
  "run se cs = fold exec cs (constructor se)"

text \<open>
  The space that the latest reference-space-changed notification of a trace announced;
  \<open>None\<close> while there has been none.
\<close>

fun announce :: "XRReferenceSpace option \<Rightarrow> event \<Rightarrow> XRReferenceSpace option" where
  "announce cur (Notify OnXRReferenceSpaceChanged (SpaceArg sp) obs snap) = sp"
| "announce cur e = cur"

definition last_announced :: "event list \<Rightarrow> XRReferenceSpace option" where
  "last_announced tr = foldl announce None tr"

text \<open>The reference spaces requested in a stretch of the trace.\<close>

fun requested :: "event list \<Rightarrow> XRReferenceSpaceType list" where
  "requested [] = []"
| "requested (RequestReferenceSpace t # es) = t # requested es"
| "requested (e # es) = requested es"

text \<open>The providers disposed in a stretch of the trace.\<close>

fun disposed :: "event list \<Rightarrow> RTTProvider list" where
  "disposed [] = []"
| "disposed (ProviderDispose p # es) = p # disposed es"
| "disposed (e # es) = disposed es"

text \<open>
  The invariant of the reference space property: the current reference space is the one
  that the latest reference-space-changed notification announced.
\<close>

definition announced :: "world \<Rightarrow> bool" where
  "announced w = (priv_referenceSpace (mgr w) = last_announced (trace w))"

text \<open>The fields of the manager as the subscribers of one observable found them, call by call.\<close>

fun snapshots :: "signal \<Rightarrow> event list \<Rightarrow> WebXRSessionManager list" where
  "snapshots s [] = []"
| "snapshots s (Notify s' arg obs snap # es) = (if s' = s then snap # snapshots s es else snapshots s es)"
| "snapshots s (e # es) = snapshots s es"

section \<open>Example worlds\<close>

text \<open>
  A browser and the native backend as the ambient navigator, a navigator without WebXR and
  two whose capability probes are missing or reject; a session, a compositor layer, and
  managers brought into a session by calls.
\<close>

definition example_engine :: Engine where
  "example_engine = \<lparr>framebufferDimensionsObject = None, customAnimationFrameRequester = False\<rparr>"

definition browser :: Navigator where
  "browser = \<lparr>xr = Some \<lparr>native = None, isSessionSupported = Some (\<lambda>mode. Inr (Some True)),
                          supportsSession = None\<rparr>\<rparr>"

definition native_backend :: Navigator where
  "native_backend = \<lparr>xr = Some \<lparr>native = Some True, isSessionSupported = Some (\<lambda>mode. Inr (Some True)),
                                 supportsSession = None\<rparr>\<rparr>"

definition no_webxr :: Navigator where
  "no_webxr = \<lparr>xr = None\<rparr>"

definition no_probe :: Navigator where
  "no_probe = \<lparr>xr = Some \<lparr>native = None, isSessionSupported = None, supportsSession = None\<rparr>\<rparr>"

definition rejecting_probe :: Navigator where
  "rejecting_probe = \<lparr>xr = Some \<lparr>native = None, isSessionSupported = Some (\<lambda>mode. Inl ''SecurityError''),
                                  supportsSession = None\<rparr>\<rparr>"

definition rejecting_legacy_probe :: Navigator where
  "rejecting_legacy_probe = \<lparr>xr = Some \<lparr>native = None, isSessionSupported = None,
                                         supportsSession = Some (\<lambda>mode. Inl ''NotSupportedError'')\<rparr>\<rparr>"

definition example_session :: XRSession where
  "example_session = \<lparr>sessionId = 1, sessionEnabledFeatures = None\<rparr>"

definition example_init :: XRSessionInit where
  "example_init = \<lparr>requiredFeatures = [], optionalFeatures = []\<rparr>"

definition example_layer :: XRLayer where
  "example_layer = \<lparr>layerId = 1, layerDimensions = Some (1024, 1024), layerFixedFoveation = Some (Num 0)\<rparr>"

definition plain_layer :: XRLayer where
  "plain_layer = \<lparr>layerId = 2, layerDimensions = Some (1024, 1024), layerFixedFoveation = None\<rparr>"

definition example_state :: "XRLayer \<Rightarrow> XRRenderStateInit" where
  "example_state l = \<lparr>baseLayer = Some l, depthNear = None, depthFar = None\<rparr>"

definition ready :: "Navigator \<Rightarrow> world" where
  "ready nav = run (AnEngine example_engine) [InitializeAsync nav]"

definition in_session :: "Navigator \<Rightarrow> XRLayer \<Rightarrow> world" where
  "in_session nav l =
     run (AnEngine example_engine)
       [InitializeAsync nav,
        InitializeSessionAsync ImmersiveVR example_init (Inr example_session),
        UpdateRenderTarget WebXRManagedOutputCanvas,
        UpdateRenderState (example_state l),
        Subscribe OnXRSessionEnded \<lparr>observerId = 7, once = False\<rparr>]"

definition example_options :: WebXRDefaultExperienceOptions where
  "example_options =
     \<lparr>disableDefaultUI = False, disablePointerSelection = False, disableTeleportation = False,
      disableNearInteraction = False, ignoreNativeCameraTransformation = False, useStablePlugins = False\<rparr>"

text \<open>Platforms that refuse the first reference space and then grant or refuse the viewer space.\<close>

definition viewer_only :: spaces where
  "viewer_only i t = (if t = Viewer then Inr (DeviceSpace Viewer i) else Inl ''NotSupportedError'')"

definition nothing_granted :: spaces where
  "nothing_granted i t = Inl ''NotSupportedError''"

definition all_granted :: spaces where
  "all_granted i t = Inr (DeviceSpace t i)"

section \<open>Fixed foveation: what is stored and what is read\<close>


lemma clamp_special:
  "Math_max (Num 0) (Math_min (Num 1) (or_zero None)) = Num 0"
  "Math_max (Num 0) (Math_min (Num 1) (or_zero (Some NaN))) = Num 0"
  "Math_max (Num 0) (Math_min (Num 1) (or_zero (Some Infinity))) = Num 1"
  "Math_max (Num 0) (Math_min (Num 1) (or_zero (Some NegInfinity))) = Num 0"
  by simp_all

lemmas run_defs = run_def ready_def in_session_def field_defaults_def initializeAsync_def
  initializeSessionAsync_def updateRenderTarget_def updateRenderState_def setBaseLayerWrapper_def
  notifyObservers_def on_mgr_def emit_def after_notify_def isNative_def new_wrapper_def
  example_engine_def example_session_def example_init_def example_state_def Let_def

lemma in_session_wrapper:
  "priv_baseLayerWrapper (mgr (in_session nav l)) =
     (case xr nav of
        None \<Rightarrow> None
      | Some x \<Rightarrow>
          Some (new_wrapper (if (case native x of None \<Rightarrow> False | Some b \<Rightarrow> b)
                             then NativeXRLayerWrapper else WebXRWebGLLayerWrapper) l))"
  by (simp add: run_defs split: option.splits)

lemma ready_wrapper: "priv_baseLayerWrapper (mgr (ready nav)) = None"
  by (simp add: run_defs)




text \<open>
  C10. When the wrapper supports fixed foveation and its level is exactly 0, the
  \<^verbatim>\<open>fixedFoveation\<close> getter of the manager returns null, which is also what it returns
  for a wrapper without fixed foveation and when there is no wrapper: the getter does not
  tell a level of 0 from no support.
\<close>

theorem fixedFoveation_getter_zero_reads_null:
  "(priv_baseLayerWrapper m = Some lw \<and> wrapperIsFixedFoveationSupported lw
      \<and> wrapperFixedFoveation lw = Some (Num 0) \<longrightarrow> fixedFoveation m = None)
   \<and> (priv_baseLayerWrapper m = Some lw \<and> \<not> wrapperIsFixedFoveationSupported lw
      \<and> wrapperFixedFoveation lw = None \<longrightarrow> fixedFoveation m = None)
   \<and> (priv_baseLayerWrapper m = None \<longrightarrow> fixedFoveation m = None)"
  by (simp add: fixedFoveation_def wrapper_get_fixedFoveation_def)

theorem fixedFoveation_getter_zero_reads_null_witness:
  "priv_baseLayerWrapper (mgr (in_session browser example_layer)) =
     Some (new_wrapper WebXRWebGLLayerWrapper example_layer)
   \<and> wrapperIsFixedFoveationSupported (new_wrapper WebXRWebGLLayerWrapper example_layer)
   \<and> wrapperFixedFoveation (new_wrapper WebXRWebGLLayerWrapper example_layer) = Some (Num 0)
   \<and> fixedFoveation (mgr (in_session browser example_layer)) = None
   \<and> priv_baseLayerWrapper (mgr (in_session browser plain_layer)) =
       Some (new_wrapper WebXRWebGLLayerWrapper plain_layer)
   \<and> \<not> wrapperIsFixedFoveationSupported (new_wrapper WebXRWebGLLayerWrapper plain_layer)
   \<and> wrapperFixedFoveation (new_wrapper WebXRWebGLLayerWrapper plain_layer) = None
   \<and> fixedFoveation (mgr (in_session browser plain_layer)) = None
   \<and> priv_baseLayerWrapper (mgr (ready browser)) = None
   \<and> fixedFoveation (mgr (ready browser)) = None"
  using fixedFoveation_getter_zero_reads_null
          [of "mgr (in_session browser example_layer)" "new_wrapper WebXRWebGLLayerWrapper example_layer"]
    fixedFoveation_getter_zero_reads_null
          [of "mgr (in_session browser plain_layer)" "new_wrapper WebXRWebGLLayerWrapper plain_layer"]
    fixedFoveation_getter_zero_reads_null [of "mgr (ready browser)"]
  by (simp add: in_session_wrapper ready_wrapper browser_def new_wrapper_def example_layer_def plain_layer_def)

section \<open>Capability probing\<close>

text \<open>
  C6. \<^verbatim>\<open>isSessionSupportedAsync\<close> resolves to a boolean for every navigator and mode; it
  never rejects. It resolves to false when \<^verbatim>\<open>navigator.xr\<close> is absent, when neither
  probe exists on it, and when the probe it calls rejects.
\<close>

theorem isSessionSupportedAsync_never_rejects:
  "(\<exists>b. isSessionSupportedAsync nav m mode = Inr b)
   \<and> (xr nav = None \<longrightarrow> isSessionSupportedAsync nav m mode = Inr False)
   \<and> (xr nav = Some x \<and> isSessionSupported x = None \<and> supportsSession x = None
        \<longrightarrow> isSessionSupportedAsync nav m mode = Inr False)
   \<and> (xr nav = Some x \<and> isSessionSupported x = Some f \<and> f mode = Inl r
        \<longrightarrow> isSessionSupportedAsync nav m mode = Inr False)
   \<and> (xr nav = Some x \<and> isSessionSupported x = None \<and> supportsSession x = Some f \<and> f mode = Inl r
        \<longrightarrow> isSessionSupportedAsync nav m mode = Inr False)"
  by (auto simp: isSessionSupportedAsync_def IsSessionSupportedAsync_def split: option.splits sum.splits)

theorem isSessionSupportedAsync_never_rejects_witness:
  "xr no_webxr = None
   \<and> isSessionSupportedAsync no_webxr (mgr (ready no_webxr)) ImmersiveVR = Inr False
   \<and> xr no_probe = Some \<lparr>native = None, isSessionSupported = None, supportsSession = None\<rparr>
   \<and> isSessionSupportedAsync no_probe (mgr (ready no_probe)) ImmersiveVR = Inr False
   \<and> xr rejecting_probe =
       Some \<lparr>native = None, isSessionSupported = Some (\<lambda>mode. Inl ''SecurityError''), supportsSession = None\<rparr>
   \<and> isSessionSupportedAsync rejecting_probe (mgr (ready rejecting_probe)) ImmersiveAR = Inr False
   \<and> xr rejecting_legacy_probe =
       Some \<lparr>native = None, isSessionSupported = None,
             supportsSession = Some (\<lambda>mode. Inl ''NotSupportedError'')\<rparr>
   \<and> isSessionSupportedAsync rejecting_legacy_probe (mgr (ready rejecting_legacy_probe)) Inline = Inr False"
  using isSessionSupportedAsync_never_rejects [of no_webxr "mgr (ready no_webxr)" ImmersiveVR]
    isSessionSupportedAsync_never_rejects [of no_probe "mgr (ready no_probe)" ImmersiveVR
       "\<lparr>native = None, isSessionSupported = None, supportsSession = None\<rparr>"]
    isSessionSupportedAsync_never_rejects [of rejecting_probe "mgr (ready rejecting_probe)" ImmersiveAR
       "\<lparr>native = None, isSessionSupported = Some (\<lambda>mode. Inl ''SecurityError''), supportsSession = None\<rparr>"
       "\<lambda>mode. Inl ''SecurityError''" "''SecurityError''"]
    isSessionSupportedAsync_never_rejects [of rejecting_legacy_probe "mgr (ready rejecting_legacy_probe)" Inline
       "\<lparr>native = None, isSessionSupported = None, supportsSession = Some (\<lambda>mode. Inl ''NotSupportedError'')\<rparr>"
       "\<lambda>mode. Inl ''NotSupportedError''" "''NotSupportedError''"]
  by (simp add: no_webxr_def no_probe_def rejecting_probe_def rejecting_legacy_probe_def)

section \<open>Disposal of the manager\<close>

lemma in_session_fields:
  "persistent (mgr (in_session browser l))"
  "inXRSession (mgr (in_session browser l))"
  "priv_renderTarget (mgr (in_session browser l)) = Some WebXRManagedOutputCanvas"
  "priv_renderState (mgr (in_session browser l)) = Some (example_state l)"
  "onXRSessionEnded (mgr (in_session browser l)) = [\<lparr>observerId = 7, once = False\<rparr>]"
  by (simp_all add: run_defs browser_def split: option.splits)

text \<open>
  C4. On a persistent manager \<^verbatim>\<open>dispose(false)\<close> leaves the render target, the render
  state and the session-ended subscribers as they are; \<^verbatim>\<open>dispose(true)\<close> clears the
  three on every manager; and every \<^verbatim>\<open>dispose\<close>, whatever its argument and the mode,
  clears the frame, reference-space-changed and session-initialized subscribers.
\<close>

theorem dispose_clears_by_mode:
  "(persistent (mgr w) \<longrightarrow>
       priv_renderTarget (mgr (dispose False w)) = priv_renderTarget (mgr w)
     \<and> priv_renderState (mgr (dispose False w)) = priv_renderState (mgr w)
     \<and> onXRSessionEnded (mgr (dispose False w)) = onXRSessionEnded (mgr w))
   \<and> priv_renderTarget (mgr (dispose True w)) = None
   \<and> priv_renderState (mgr (dispose True w)) = None
   \<and> onXRSessionEnded (mgr (dispose True w)) = []
   \<and> onXRFrameObservable (mgr (dispose all w)) = []
   \<and> onXRReferenceSpaceChanged (mgr (dispose all w)) = []
   \<and> onXRSessionInit (mgr (dispose all w)) = []"
  by (simp add: dispose_def Let_def on_mgr_def emit_def exitXRAsync_def clear_def split: option.splits)

theorem dispose_clears_by_mode_witness:
  "persistent (mgr (in_session browser example_layer))
   \<and> inXRSession (mgr (in_session browser example_layer))
   \<and> priv_renderTarget (mgr (dispose False (in_session browser example_layer))) = Some WebXRManagedOutputCanvas
   \<and> priv_renderState (mgr (dispose False (in_session browser example_layer))) = Some (example_state example_layer)
   \<and> onXRSessionEnded (mgr (dispose False (in_session browser example_layer))) = [\<lparr>observerId = 7, once = False\<rparr>]
   \<and> priv_renderTarget (mgr (dispose True (in_session browser example_layer))) = None"
  using dispose_clears_by_mode [of "in_session browser example_layer"]
  by (simp add: in_session_fields)

section \<open>The reference space property\<close>

lemma last_announced_snoc: "last_announced (tr @ es) = foldl announce (last_announced tr) es"
  by (simp add: last_announced_def)

lemma announced_on_mgr:
  "announced w \<Longrightarrow> priv_referenceSpace (f (mgr w)) = priv_referenceSpace (mgr w) \<Longrightarrow> announced (on_mgr f w)"
  by (simp add: announced_def on_mgr_def)

lemma announced_emit:
  "announced w \<Longrightarrow> (\<And>a. foldl announce a es = a) \<Longrightarrow> announced (emit es w)"
  by (simp add: announced_def emit_def last_announced_snoc)

lemma priv_set_observable [simp]: "priv_referenceSpace (set_observable s obs m) = priv_referenceSpace m"
  by (cases s) simp_all

lemma announced_notify:
  "announced w \<Longrightarrow> s \<noteq> OnXRReferenceSpaceChanged \<Longrightarrow> announced (notifyObservers s arg w)"
  by (cases s) (simp_all add: announced_def notifyObservers_def on_mgr_def emit_def last_announced_snoc)

lemma announced_set_referenceSpace: "announced (set_referenceSpace sp w)"
  by (simp add: announced_def set_referenceSpace_def notifyObservers_def on_mgr_def emit_def last_announced_snoc)

lemma announced_exitXRAsync: "announced w \<Longrightarrow> announced (exitXRAsync w)"
  unfolding exitXRAsync_def
  by (auto intro!: announced_on_mgr announced_emit split: option.splits)

lemma announced_dispose: "announced w \<Longrightarrow> announced (dispose all w)"
  unfolding dispose_def Let_def
  by (auto intro!: announced_on_mgr announced_emit announced_exitXRAsync split: option.splits)

lemma announced_endListeners: "announced w \<Longrightarrow> announced (w\<lparr>endListeners := l\<rparr>)"
  by (simp add: announced_def)

lemma announced_endHandler: "announced w \<Longrightarrow> announced (snd (endHandler w))"
  unfolding endHandler_def Let_def
  by (auto intro!: announced_on_mgr announced_emit announced_notify split: option.splits sum.splits)

lemma announced_sessionEndEvent: "announced w \<Longrightarrow> announced (snd (sessionEndEvent s w))"
  unfolding sessionEndEvent_def
  by (auto intro!: announced_endHandler announced_endListeners)

lemma announced_initializeAsync: "announced w \<Longrightarrow> announced (snd (initializeAsync n w))"
  unfolding initializeAsync_def Let_def
  by (auto intro!: announced_on_mgr)

lemma announced_initializeSessionAsync: "announced w \<Longrightarrow> announced (snd (initializeSessionAsync mo i a w))"
  unfolding initializeSessionAsync_def Let_def
  by (auto intro!: announced_on_mgr announced_emit announced_notify announced_endListeners split: option.splits sum.splits)

lemma announced_runXRRenderLoop: "announced w \<Longrightarrow> announced (runXRRenderLoop b w)"
  unfolding runXRRenderLoop_def Let_def
  by (auto intro!: announced_on_mgr announced_emit split: option.splits)

lemma announced_renderFunction: "announced w \<Longrightarrow> announced (renderFunction t f w)"
  unfolding renderFunction_def Let_def
  by (auto intro!: announced_on_mgr announced_emit announced_notify split: option.splits)

lemma announced_frameTick: "announced w \<Longrightarrow> announced (frameTick t f w)"
  unfolding frameTick_def
  by (auto intro!: announced_renderFunction split: option.splits)

lemma announced_runInXRFrame: "announced w \<Longrightarrow> announced (runInXRFrame c b w)"
  unfolding runInXRFrame_def
  by (auto intro!: announced_on_mgr announced_emit)

lemma announced_negotiate: "announced w \<Longrightarrow> announced (snd (snd (negotiate a t w)))"
  unfolding negotiate_def Let_def
  by (auto intro!: announced_emit split: sum.splits)

lemma announced_setReferenceSpaceTypeAsync: "announced w \<Longrightarrow> announced (snd (setReferenceSpaceTypeAsync a t w))"
proof -
  assume a: "announced w"
  obtain r n w1 where neg: "negotiate a t w = (r, n, w1)" by (cases "negotiate a t w") auto
  have w1: "announced w1" using announced_negotiate [OF a, of a t] neg by simp
  show ?thesis
    unfolding setReferenceSpaceTypeAsync_def Let_def
    using a w1 neg
    by (auto intro!: announced_emit announced_set_referenceSpace split: option.splits sum.splits)
qed

lemma announced_setBaseLayerWrapper: "announced w \<Longrightarrow> announced (setBaseLayerWrapper l w)"
  unfolding setBaseLayerWrapper_def Let_def
  by (auto intro!: announced_on_mgr announced_emit split: option.splits)

lemma announced_updateRenderTarget: "announced w \<Longrightarrow> announced (updateRenderTarget l w)"
  unfolding updateRenderTarget_def
  by (auto intro!: announced_on_mgr)

lemma announced_updateRenderState: "announced w \<Longrightarrow> announced (snd (updateRenderState st w))"
  unfolding updateRenderState_def Let_def
  by (auto intro!: announced_on_mgr announced_emit announced_setBaseLayerWrapper split: option.splits sum.splits)

lemma announced_updateRenderStateAsync: "announced w \<Longrightarrow> announced (snd (updateRenderStateAsync st w))"
  unfolding updateRenderStateAsync_def
  by (auto intro!: announced_emit split: option.splits)

lemma announced_updateTargetFrameRate: "announced w \<Longrightarrow> announced (snd (updateTargetFrameRate r a w))"
  unfolding updateTargetFrameRate_def
  by (auto intro!: announced_emit split: option.splits)

lemma priv_set_fixedFoveation [simp]: "priv_referenceSpace (set_fixedFoveation v m) = priv_referenceSpace m"
  by (simp add: set_fixedFoveation_def Let_def split: option.splits)

lemma announced_fold_subscribe:
  "announced w \<Longrightarrow> announced (fold (\<lambda>(s, ob) v. on_mgr (\<lambda>m. set_observable s (observable_of s m @ [ob]) m) v) h w)"
proof (induction h arbitrary: w)
  case Nil
  then show ?case by simp
next
  case (Cons p h)
  obtain s ob where p: "p = (s, ob)" by (cases p)
  have "announced (on_mgr (\<lambda>m. set_observable s (observable_of s m @ [ob]) m) w)"
    using Cons.prems by (auto intro!: announced_on_mgr)
  from Cons.IH [OF this] show ?case by (simp add: p)
qed

lemma announced_run_hookUp: "announced w \<Longrightarrow> announced (run_hookUp h w)"
  unfolding run_hookUp_def
  by (auto intro!: announced_fold_subscribe announced_emit)

lemma announced_ensure_renderTarget: "announced w \<Longrightarrow> announced (snd (ensure_renderTarget w))"
  unfolding ensure_renderTarget_def
  by (auto intro!: announced_updateRenderTarget split: option.splits sum.splits)

lemma announced_reapply_renderState: "announced w \<Longrightarrow> announced (snd (reapply_renderState L a rs w))"
proof -
  assume a: "announced w"
  obtain r w2 where e: "ensure_renderTarget w = (r, w2)" by (cases "ensure_renderTarget w")
  have w2: "announced w2" using announced_ensure_renderTarget [OF a] e by simp
  have w3: "announced (emit [InitializeXRLayer t] w2)" for t
    using w2 by (auto intro!: announced_emit)
  show ?thesis
    unfolding reapply_renderState_def Let_def e
    using w2 w3 by (auto intro!: announced_updateRenderState split: sum.splits)
qed

lemma announced_rehook: "announced w \<Longrightarrow> announced (rehook h w)"
  unfolding rehook_def Let_def
  by (auto intro!: announced_notify announced_run_hookUp)

lemma announced_mgr_moveXRToScene: "announced w \<Longrightarrow> announced (snd (mgr_moveXRToScene L a sc h w))"
proof -
  assume a: "announced w"
  have w1: "announced (on_mgr (\<lambda>m. m\<lparr>scene := Some sc\<rparr>) w)"
    using a by (auto intro!: announced_on_mgr)
  have r: "announced w4" if "reapply_renderState L a rs (on_mgr (\<lambda>m. m\<lparr>scene := Some sc\<rparr>) w) = (r, w4)" for rs r w4
    using announced_reapply_renderState [OF w1, of L a rs] that by simp
  show ?thesis
    unfolding mgr_moveXRToScene_def Let_def
    using w1
    by (auto intro!: announced_rehook intro: r split: option.splits sum.splits prod.splits)
qed

lemma announced_exec: "announced w \<Longrightarrow> announced (exec c w)"
  by (cases c)
     (auto intro!: announced_on_mgr announced_set_referenceSpace announced_dispose announced_exitXRAsync
        announced_initializeAsync announced_initializeSessionAsync announced_sessionEndEvent
        announced_runXRRenderLoop announced_frameTick announced_runInXRFrame
        announced_setReferenceSpaceTypeAsync announced_updateRenderTarget announced_updateRenderState
        announced_updateRenderStateAsync announced_updateTargetFrameRate announced_setBaseLayerWrapper
        announced_mgr_moveXRToScene simp: resetReferenceSpace_def)

lemma announced_fold_exec: "announced w \<Longrightarrow> announced (fold exec cs w)"
  by (induction cs arbitrary: w) (auto intro: announced_exec)

lemma announced_constructor: "announced (constructor se)"
  by (cases se) (simp_all add: announced_def last_announced_def field_defaults_def)

lemma announced_run: "announced (run se cs)"
  unfolding run_def by (rule announced_fold_exec [OF announced_constructor])

text \<open>
  C5. A write to the \<^verbatim>\<open>referenceSpace\<close> property stores the space that was written and
  calls the reference-space-changed observable with that very space; the reset does so
  with the base space. No operation of the manager changes the current reference space in
  another way: after any run of calls on a new manager, the current reference space is
  the one that the latest reference-space-changed notification announced.
\<close>

theorem referenceSpace_write_always_notifies:
  "priv_referenceSpace (mgr (set_referenceSpace sp w)) = sp
   \<and> trace (set_referenceSpace sp w) =
       trace w @ [Notify OnXRReferenceSpaceChanged (SpaceArg sp) (onXRReferenceSpaceChanged (mgr w))
                    ((mgr w)\<lparr>priv_referenceSpace := sp\<rparr>)]
   \<and> trace (resetReferenceSpace w) =
       trace w @ [Notify OnXRReferenceSpaceChanged (SpaceArg (baseReferenceSpace (mgr w)))
                    (onXRReferenceSpaceChanged (mgr w))
                    ((mgr w)\<lparr>priv_referenceSpace := baseReferenceSpace (mgr w)\<rparr>)]
   \<and> referenceSpace (mgr (run se cs)) = last_announced (trace (run se cs))"
proof -
  have "trace (set_referenceSpace v w) =
          trace w @ [Notify OnXRReferenceSpaceChanged (SpaceArg v) (onXRReferenceSpaceChanged (mgr w))
                       ((mgr w)\<lparr>priv_referenceSpace := v\<rparr>)]" for v
    by (simp add: set_referenceSpace_def notifyObservers_def on_mgr_def emit_def)
  moreover have "priv_referenceSpace (mgr (set_referenceSpace sp w)) = sp"
    by (simp add: set_referenceSpace_def notifyObservers_def on_mgr_def emit_def)
  moreover have "referenceSpace (mgr (run se cs)) = last_announced (trace (run se cs))"
    using announced_run [of se cs] by (simp add: announced_def referenceSpace_def)
  ultimately show ?thesis by (simp add: resetReferenceSpace_def)
qed

section \<open>The end of a session\<close>

lemma endHandler_effect:
  assumes "isNative (mgr w) = Inr n"
  shows "fst (endHandler w) = Inr ()
       \<and> disposed (drop (length (trace w)) (trace (snd (endHandler w)))) =
           (if n then (case priv_baseLayerRTTProvider (mgr w) of None \<Rightarrow> [] | Some p \<Rightarrow> [p]) else [])
       \<and> priv_baseLayerRTTProvider (mgr (snd (endHandler w))) = None
       \<and> priv_baseLayerWrapper (mgr (snd (endHandler w))) = None"
  using assms
  by (auto simp: endHandler_def Let_def notifyObservers_def on_mgr_def emit_def isNative_def
      split: option.splits sum.splits signal.splits)

lemma sessionEndEvent_pending:
  "sessionId s \<in> set (endListeners w) \<Longrightarrow>
     sessionEndEvent s w = endHandler (w\<lparr>endListeners := remove1 (sessionId s) (endListeners w)\<rparr>)"
  by (simp add: sessionEndEvent_def)

lemma exitXRAsync_keeps:
  "endListeners (exitXRAsync w) = endListeners w"
  "isNative (mgr (exitXRAsync w)) = isNative (mgr w)"
  "priv_baseLayerRTTProvider (mgr (exitXRAsync w)) = priv_baseLayerRTTProvider (mgr w)"
  by (simp_all add: exitXRAsync_def on_mgr_def emit_def isNative_def split: option.splits)

lemma sessionEndEvent_effect:
  assumes "sessionId s \<in> set (endListeners w)" and "isNative (mgr w) = Inr n"
  shows "fst (sessionEndEvent s w) = Inr ()
       \<and> disposed (drop (length (trace w)) (trace (snd (sessionEndEvent s w)))) =
           (if n then (case priv_baseLayerRTTProvider (mgr w) of None \<Rightarrow> [] | Some p \<Rightarrow> [p]) else [])
       \<and> priv_baseLayerRTTProvider (mgr (snd (sessionEndEvent s w))) = None
       \<and> priv_baseLayerWrapper (mgr (snd (sessionEndEvent s w))) = None"
  using endHandler_effect [of "w\<lparr>endListeners := remove1 (sessionId s) (endListeners w)\<rparr>" n] assms
  by (simp add: sessionEndEvent_pending)

text \<open>
  C9. When the "end" event of a session reaches the pending listener, after
  \<^verbatim>\<open>exitXRAsync\<close> or on the device's own initiative, the handler disposes the active
  render-target-texture provider exactly when the manager runs on the native backend: in
  a browser it disposes no provider. In both contexts the provider and the layer wrapper
  references are null afterwards.
\<close>

theorem end_handler_disposes_provider_only_when_native:
  assumes "sessionId s \<in> set (endListeners w)" and "isNative (mgr w) = Inr n"
  shows "fst (sessionEndEvent s w) = Inr ()
       \<and> disposed (drop (length (trace w)) (trace (snd (sessionEndEvent s w)))) =
           (if n then (case priv_baseLayerRTTProvider (mgr w) of None \<Rightarrow> [] | Some p \<Rightarrow> [p]) else [])
       \<and> priv_baseLayerRTTProvider (mgr (snd (sessionEndEvent s w))) = None
       \<and> priv_baseLayerWrapper (mgr (snd (sessionEndEvent s w))) = None
       \<and> fst (sessionEndEvent s (exitXRAsync w)) = Inr ()
       \<and> disposed (drop (length (trace (exitXRAsync w))) (trace (snd (sessionEndEvent s (exitXRAsync w))))) =
           (if n then (case priv_baseLayerRTTProvider (mgr w) of None \<Rightarrow> [] | Some p \<Rightarrow> [p]) else [])
       \<and> priv_baseLayerRTTProvider (mgr (snd (sessionEndEvent s (exitXRAsync w)))) = None
       \<and> priv_baseLayerWrapper (mgr (snd (sessionEndEvent s (exitXRAsync w)))) = None"
  using sessionEndEvent_effect [OF assms] sessionEndEvent_effect [of s "exitXRAsync w" n] assms
  by (simp add: exitXRAsync_keeps)

lemma in_session_context:
  "endListeners (in_session browser l) = [1]"
  "endListeners (in_session native_backend l) = [1]"
  "isNative (mgr (in_session browser l)) = Inr False"
  "isNative (mgr (in_session native_backend l)) = Inr True"
  "priv_baseLayerRTTProvider (mgr (in_session browser l)) = Some (RTTProvider WebXRWebGLLayerWrapper l)"
  "priv_baseLayerRTTProvider (mgr (in_session native_backend l)) = Some (RTTProvider NativeXRLayerWrapper l)"
  "session (mgr (in_session browser l)) = Some example_session"
  by (simp_all add: run_defs browser_def native_backend_def)

theorem end_handler_disposes_provider_only_when_native_witness:
  "sessionId example_session \<in> set (endListeners (in_session browser example_layer))
   \<and> isNative (mgr (in_session browser example_layer)) = Inr False
   \<and> priv_baseLayerRTTProvider (mgr (in_session browser example_layer)) =
        Some (RTTProvider WebXRWebGLLayerWrapper example_layer)
   \<and> disposed (drop (length (trace (in_session browser example_layer)))
        (trace (snd (sessionEndEvent example_session (in_session browser example_layer))))) = []
   \<and> priv_baseLayerRTTProvider (mgr (snd (sessionEndEvent example_session (in_session browser example_layer)))) = None
   \<and> sessionId example_session \<in> set (endListeners (in_session native_backend example_layer))
   \<and> isNative (mgr (in_session native_backend example_layer)) = Inr True
   \<and> disposed (drop (length (trace (in_session native_backend example_layer)))
        (trace (snd (sessionEndEvent example_session (in_session native_backend example_layer))))) =
        [RTTProvider NativeXRLayerWrapper example_layer]
   \<and> priv_baseLayerRTTProvider (mgr (snd (sessionEndEvent example_session (in_session native_backend example_layer)))) = None"
  using end_handler_disposes_provider_only_when_native
          [of example_session "in_session browser example_layer" False]
        end_handler_disposes_provider_only_when_native
          [of example_session "in_session native_backend example_layer" True]
  by (simp add: in_session_context example_session_def)

section \<open>Moving a default experience\<close>

text \<open>
  C8. \<^verbatim>\<open>moveXRToScene\<close> on a default experience that is not persistent rejects with
  the string that names \<^verbatim>\<open>CreatePersistentAsync()\<close>, and the experience, the session
  manager and the trace are what they were: nothing is disposed, moved or initialized.
\<close>

theorem moveXRToScene_rejects_unless_persistent:
  assumes "\<not> exp_persistent (experience x)"
  shows "moveXRToScene LAYERS layerAnswer nextScene h x =
           (Inl (Thrown ''DefaultExperience must be instanced with CreatePersistentAsync() to move XR''), x)"
  using assms by (simp add: moveXRToScene_def must_be_persistent_def)

lemma exp_persistent_on_exp_other [simp]:
  "exp_persistent (experience (xemit es x)) = exp_persistent (experience x)"
  by (simp add: xemit_def)

lemma initializeScene_persistent [simp]:
  "exp_persistent (experience (snd (initializeScene x))) = exp_persistent (experience x)"
  by (simp add: initializeScene_def Let_def on_exp_def xemit_def split: option.splits prod.splits sum.splits)

lemma make_target_persistent [simp]:
  "exp_persistent (experience (snd (make_target x))) = exp_persistent (experience x)"
  by (simp add: make_target_def addUI_def Let_def on_exp_def xemit_def split: option.splits prod.splits sum.splits)

lemma finish_create_persistent [simp]:
  "exp_persistent (experience (finish_create (r, x))) = exp_persistent (experience x)"
  by (simp add: finish_create_def xemit_def split: sum.splits)

lemma CreateAsync_not_persistent: "\<not> exp_persistent (experience (CreateAsync sc e nav opts))"
proof -
  obtain r x where h: "helper_CreateAsync (AScene sc e) nav (new_experience opts) = (r, x)"
    by (cases "helper_CreateAsync (AScene sc e) nav (new_experience opts)")
  have x: "\<not> exp_persistent (experience x)"
    using h by (auto simp: helper_CreateAsync_def new_experience_def split: prod.splits)
  define y where "y = on_exp (\<lambda>d. d\<lparr>baseExperience := Some \<lparr>helperScene = Some sc, compensateOnFirstFrame = True\<rparr>\<rparr>) x"
  have y: "\<not> exp_persistent (experience y)" using x by (simp add: y_def on_exp_def)
  obtain r1 x1 where i: "initializeScene y = (r1, x1)" by (cases "initializeScene y")
  have x1: "\<not> exp_persistent (experience x1)"
    using initializeScene_persistent [of y] i y by simp
  obtain r2 x2 where m: "make_target x1 = (r2, x2)" by (cases "make_target x1")
  have x2: "\<not> exp_persistent (experience x2)"
    using make_target_persistent [of x1] m x1 by simp
  show ?thesis
    unfolding CreateAsync_def h
    using x x1 x2 i m
    by (cases r; cases r1) (simp_all add: y_def [symmetric])
qed

theorem moveXRToScene_rejects_unless_persistent_witness:
  "\<not> exp_persistent (experience (CreateAsync 1 example_engine browser example_options))
   \<and> moveXRToScene ''xr-layers'' (Inr None) 2 [] (CreateAsync 1 example_engine browser example_options) =
       (Inl (Thrown ''DefaultExperience must be instanced with CreatePersistentAsync() to move XR''),
        CreateAsync 1 example_engine browser example_options)"
  using moveXRToScene_rejects_unless_persistent
          [of "CreateAsync 1 example_engine browser example_options" "''xr-layers''" "Inr None" 2 "[]"]
  by (simp add: CreateAsync_not_persistent)

text \<open>
  A persistent experience does move: it disposes with \<^verbatim>\<open>all = false\<close>, has the base
  experience moved, initializes the scene and runs the callback. Made with teleportation
  left enabled, it fails in \<^verbatim>\<open>_initializeScene\<close> instead.
\<close>

lemmas exp_defs = CreatePersistentAsync_def helper_CreateAsync_def finish_create_def make_target_def
  addUI_def new_experience_def persistent_defaults_def on_exp_def xemit_def on_world_def
  moveXRToScene_def exp_dispose_def helper_dispose_def helper_moveXRToScene_def initializeScene_def
  mgr_moveXRToScene_def rehook_def run_hookUp_def reapply_renderState_def ensure_renderTarget_def
  dispose_def exitXRAsync_def getWebXRRenderTarget_def clear_def constructor.simps

lemma persistent_experience_moves:
  "exp_persistent (experience (CreatePersistentAsync example_engine browser None))
   \<and> fst (moveXRToScene ''xr-layers'' (Inr None) 2 []
             (CreatePersistentAsync example_engine browser None)) = Inr ()
   \<and> scene (mgr (snd (moveXRToScene ''xr-layers'' (Inr None) 2 []
                        (CreatePersistentAsync example_engine browser None)))) = Some 2
   \<and> take 5 (drop (length (trace (CreatePersistentAsync example_engine browser None)))
        (trace (snd (moveXRToScene ''xr-layers'' (Inr None) 2 []
                       (CreatePersistentAsync example_engine browser None))))) =
       [BaseExperienceDispose False, BaseExperienceMove 2, NewInput,
        EnableFeature PointerSelection False, HookUp]"
  by (simp add: exp_defs run_defs browser_def)

lemma persistent_experience_with_teleportation_throws:
  "fst (moveXRToScene ''xr-layers'' (Inr None) 2 []
          (CreatePersistentAsync example_engine browser (Some example_options))) =
     Inl (Thrown teleport_not_suitable)"
  by (simp add: exp_defs run_defs browser_def example_options_def)

section \<open>Negotiating the reference space\<close>

lemma negotiate_rejected_then_viewer:
  assumes "answer 0 T = Inl r" and "answer 1 Viewer = Inr v"
  shows "negotiate answer T w =
           (Inr (OffsetSpace v (XRRigidTransform (Num 0, negate (defaultHeightCompensation (mgr w)), Num 0))), 2,
            emit [RequestReferenceSpace T,
                  LoggerError ''XR.requestReferenceSpace failed for the following reason: '',
                  LoggerError r,
                  LoggerLog defaulting_to_viewer,
                  RequestReferenceSpace Viewer] w)"
  using assms by (simp add: negotiate_def Let_def emit_def getOffsetReferenceSpace_def)

lemma negotiate_rejected_twice:
  assumes "answer 0 T = Inl r" and "answer 1 Viewer = Inl r'"
  shows "negotiate answer T w =
           (Inl (Thrown viewer_unavailable), 2,
            emit [RequestReferenceSpace T,
                  LoggerError ''XR.requestReferenceSpace failed for the following reason: '',
                  LoggerError r,
                  LoggerLog defaulting_to_viewer,
                  RequestReferenceSpace Viewer,
                  LoggerError r'] w)"
  using assms by (simp add: negotiate_def Let_def emit_def)

lemma negotiate_granted:
  assumes "answer 0 T = Inr sp"
  shows "negotiate answer T w = (Inr sp, 1, emit [RequestReferenceSpace T] w)"
  using assms by (simp add: negotiate_def Let_def)

text \<open>
  C2. When the request for the wanted type is rejected, the manager asks for the viewer
  space once as its fallback and does not try again. If that request is granted, the
  negotiated space is the granted viewer space offset by (0, -defaultHeightCompensation, 0),
  whatever the field holds at that time, 1.7 on a new manager, and the call goes on to its
  one request for the parallel viewer space. If the fallback is rejected too, the call
  rejects with the "viewer not supported" string, having made the two requests and no
  change to the manager.
\<close>

theorem viewer_fallback_once_with_height_compensation:
  assumes "session (mgr w) = Some s" and "answer 0 T = Inl r"
  shows "(\<forall>v. answer 1 Viewer = Inr v \<longrightarrow>
            fst (negotiate answer T w) =
              Inr (OffsetSpace v (XRRigidTransform (Num 0, negate (defaultHeightCompensation (mgr w)), Num 0)))
          \<and> requested (drop (length (trace w)) (trace (snd (snd (negotiate answer T w))))) = [T, Viewer])
       \<and> (\<forall>v v'. answer 1 Viewer = Inr v \<and> answer 2 Viewer = Inr v' \<longrightarrow>
            fst (setReferenceSpaceTypeAsync answer T w) =
              Inr (Some (OffsetSpace v (XRRigidTransform (Num 0, negate (defaultHeightCompensation (mgr w)), Num 0))))
          \<and> requested (drop (length (trace w)) (trace (snd (setReferenceSpaceTypeAsync answer T w)))) =
              [T, Viewer, Viewer])
       \<and> (\<forall>r'. answer 1 Viewer = Inl r' \<longrightarrow>
            fst (setReferenceSpaceTypeAsync answer T w) = Inl (Thrown viewer_unavailable)
          \<and> requested (drop (length (trace w)) (trace (snd (setReferenceSpaceTypeAsync answer T w)))) =
              [T, Viewer]
          \<and> mgr (snd (setReferenceSpaceTypeAsync answer T w)) = mgr w)
       \<and> defaultHeightCompensation (mgr (constructor se)) = Num 1.7
       \<and> (\<forall>k. defaultHeightCompensation (mgr w) = Num k \<longrightarrow>
            negate (defaultHeightCompensation (mgr w)) = Num (- k))"
proof -
  have a: "fst (negotiate answer T w) =
              Inr (OffsetSpace v (XRRigidTransform (Num 0, negate (defaultHeightCompensation (mgr w)), Num 0)))
          \<and> requested (drop (length (trace w)) (trace (snd (snd (negotiate answer T w))))) = [T, Viewer]"
    if "answer 1 Viewer = Inr v" for v
    by (simp add: negotiate_rejected_then_viewer [OF assms(2) that] emit_def)
  have b: "fst (setReferenceSpaceTypeAsync answer T w) =
              Inr (Some (OffsetSpace v (XRRigidTransform (Num 0, negate (defaultHeightCompensation (mgr w)), Num 0))))
          \<and> requested (drop (length (trace w)) (trace (snd (setReferenceSpaceTypeAsync answer T w)))) =
              [T, Viewer, Viewer]"
    if "answer 1 Viewer = Inr v" and "answer 2 Viewer = Inr v'" for v v'
    using assms(1) that(2)
    by (simp add: setReferenceSpaceTypeAsync_def negotiate_rejected_then_viewer [OF assms(2) that(1)]
          emit_def on_mgr_def set_referenceSpace_def notifyObservers_def referenceSpace_def Let_def)
  have c: "fst (setReferenceSpaceTypeAsync answer T w) = Inl (Thrown viewer_unavailable)
          \<and> requested (drop (length (trace w)) (trace (snd (setReferenceSpaceTypeAsync answer T w)))) =
              [T, Viewer]
          \<and> mgr (snd (setReferenceSpaceTypeAsync answer T w)) = mgr w"
    if "answer 1 Viewer = Inl r'" for r'
    using assms(1)
    by (simp add: setReferenceSpaceTypeAsync_def negotiate_rejected_twice [OF assms(2) that] emit_def)
  have d: "defaultHeightCompensation (mgr (constructor se)) = Num 1.7"
    by (cases se) (simp_all add: field_defaults_def)
  show ?thesis using a b c d by simp
qed

lemma in_session_session: "session (mgr (in_session browser l)) = Some example_session"
  by (simp add: run_defs browser_def)

theorem viewer_fallback_once_with_height_compensation_witness:
  "session (mgr (in_session browser example_layer)) = Some example_session
   \<and> viewer_only 0 LocalFloor = Inl ''NotSupportedError''
   \<and> viewer_only 1 Viewer = Inr (DeviceSpace Viewer 1)
   \<and> viewer_only 2 Viewer = Inr (DeviceSpace Viewer 2)
   \<and> fst (setReferenceSpaceTypeAsync viewer_only LocalFloor (in_session browser example_layer)) =
       Inr (Some (OffsetSpace (DeviceSpace Viewer 1) (XRRigidTransform (Num 0, Num (- 1.7), Num 0))))
   \<and> requested (drop (length (trace (in_session browser example_layer)))
        (trace (snd (setReferenceSpaceTypeAsync viewer_only LocalFloor (in_session browser example_layer))))) =
       [LocalFloor, Viewer, Viewer]
   \<and> nothing_granted 0 LocalFloor = Inl ''NotSupportedError''
   \<and> nothing_granted 1 Viewer = Inl ''NotSupportedError''
   \<and> fst (setReferenceSpaceTypeAsync nothing_granted LocalFloor (in_session browser example_layer)) =
       Inl (Thrown viewer_unavailable)
   \<and> requested (drop (length (trace (in_session browser example_layer)))
        (trace (snd (setReferenceSpaceTypeAsync nothing_granted LocalFloor (in_session browser example_layer))))) =
       [LocalFloor, Viewer]"
  using viewer_fallback_once_with_height_compensation
          [of "in_session browser example_layer" example_session viewer_only LocalFloor "''NotSupportedError''"]
        viewer_fallback_once_with_height_compensation
          [of "in_session browser example_layer" example_session nothing_granted LocalFloor "''NotSupportedError''"]
  by (simp add: in_session_session viewer_only_def nothing_granted_def run_defs browser_def)

text \<open>
  C3. When \<^verbatim>\<open>setReferenceSpaceTypeAsync\<close> resolves, the base and the current
  reference space are both the one space that the negotiation, fallback included,
  resolved, which is also the value of the promise; the viewer reference space is set; and
  the parallel viewer space was requested, and stored, before the reference space was
  assigned and announced.
\<close>

theorem setReferenceSpaceTypeAsync_success_state:
  assumes "setReferenceSpaceTypeAsync answer T w = (Inr r, w')"
  shows "\<exists>sp v.
           fst (negotiate answer T w) = Inr sp
         \<and> r = Some sp
         \<and> baseReferenceSpace (mgr w') = Some sp
         \<and> referenceSpace (mgr w') = Some sp
         \<and> viewerReferenceSpace (mgr w') = Some v
         \<and> viewerReferenceSpace (mgr w') \<noteq> None
         \<and> trace w' = trace (snd (snd (negotiate answer T w))) @
              [RequestReferenceSpace Viewer,
               Notify OnXRReferenceSpaceChanged (SpaceArg (Some sp))
                 (onXRReferenceSpaceChanged (mgr w))
                 ((mgr w)\<lparr>viewerReferenceSpace := Some v, baseReferenceSpace := Some sp,
                          priv_referenceSpace := Some sp\<rparr>)]"
proof -
  obtain res n w1 where neg: "negotiate answer T w = (res, n, w1)"
    by (cases "negotiate answer T w")
  have m1: "mgr w1 = mgr w"
    using neg by (auto simp: negotiate_def Let_def emit_def split: sum.splits)
  from assms obtain s where s: "session (mgr w) = Some s"
    by (auto simp: setReferenceSpaceTypeAsync_def split: option.splits)
  from assms neg s obtain sp where sp: "res = Inr sp"
    by (cases res) (auto simp: setReferenceSpaceTypeAsync_def)
  from assms neg s sp obtain v where v: "answer n Viewer = Inr v"
    by (cases "answer n Viewer") (auto simp: setReferenceSpaceTypeAsync_def Let_def)
  show ?thesis
    using assms neg s sp v m1
    by (auto simp: setReferenceSpaceTypeAsync_def Let_def set_referenceSpace_def notifyObservers_def
          on_mgr_def emit_def referenceSpace_def)
qed

theorem setReferenceSpaceTypeAsync_success_state_witness:
  "setReferenceSpaceTypeAsync all_granted LocalFloor (in_session browser example_layer) =
     (Inr (Some (DeviceSpace LocalFloor 0)),
      snd (setReferenceSpaceTypeAsync all_granted LocalFloor (in_session browser example_layer)))
   \<and> baseReferenceSpace (mgr (snd (setReferenceSpaceTypeAsync all_granted LocalFloor (in_session browser example_layer)))) =
       Some (DeviceSpace LocalFloor 0)
   \<and> referenceSpace (mgr (snd (setReferenceSpaceTypeAsync all_granted LocalFloor (in_session browser example_layer)))) =
       Some (DeviceSpace LocalFloor 0)
   \<and> viewerReferenceSpace (mgr (snd (setReferenceSpaceTypeAsync all_granted LocalFloor (in_session browser example_layer)))) \<noteq> None"
proof -
  have e: "setReferenceSpaceTypeAsync all_granted LocalFloor (in_session browser example_layer) =
     (Inr (Some (DeviceSpace LocalFloor 0)),
      snd (setReferenceSpaceTypeAsync all_granted LocalFloor (in_session browser example_layer)))"
    by (simp add: setReferenceSpaceTypeAsync_def in_session_session negotiate_def all_granted_def Let_def
          set_referenceSpace_def notifyObservers_def on_mgr_def emit_def referenceSpace_def)
  from setReferenceSpaceTypeAsync_success_state [OF e] e show ?thesis
    by (auto simp: negotiate_def all_granted_def Let_def)
qed

section \<open>The start of a session\<close>

lemma initializeSessionAsync_success:
  assumes "priv_xrNavigator (mgr w) = Some nav" and "xr nav = Some x"
  shows "trace (snd (initializeSessionAsync mode init (Inr s) w)) =
           trace w @ [RequestSession mode init,
                      Notify OnXRSessionInit (SessionArg (Some s)) (onXRSessionInit (mgr w))
                        ((mgr w)\<lparr>session := Some s, priv_sessionMode := Some mode\<rparr>),
                      AddEndListener s]
       \<and> fst (initializeSessionAsync mode init (Inr s) w) = Inr s
       \<and> session (mgr (snd (initializeSessionAsync mode init (Inr s) w))) = Some s
       \<and> sessionMode (mgr (snd (initializeSessionAsync mode init (Inr s) w))) = Some mode
       \<and> inXRSession (mgr (snd (initializeSessionAsync mode init (Inr s) w)))
       \<and> endListeners (snd (initializeSessionAsync mode init (Inr s) w)) = endListeners w @ [sessionId s]"
  using assms
  by (simp add: initializeSessionAsync_def Let_def notifyObservers_def on_mgr_def emit_def sessionMode_def)

text \<open>
  C1. What the code does on a successful \<^verbatim>\<open>initializeSessionAsync\<close> of a manager that
  is not in a session: the subscribers of the session-initialized observable are called
  once, with the session already stored but with \<^verbatim>\<open>inXRSession\<close> still false; the
  flag is true only when the call has returned.
\<close>

theorem sessionInit_is_notified_before_inXRSession_is_set:
  "map inXRSession (snapshots OnXRSessionInit
       (trace (snd (initializeSessionAsync ImmersiveVR example_init (Inr example_session) (ready browser))))) = [False]
   \<and> map session (snapshots OnXRSessionInit
       (trace (snd (initializeSessionAsync ImmersiveVR example_init (Inr example_session) (ready browser))))) =
       [Some example_session]
   \<and> inXRSession (mgr (snd (initializeSessionAsync ImmersiveVR example_init (Inr example_session) (ready browser))))"
  by (simp add: run_defs browser_def)

end
